theory Spec2Isabelle
  imports Main
begin

section \<open>Text primitives of the Go standard library used by the step\<close>

text \<open>
  Go strings are byte sequences; they are modelled as \<open>string\<close> (a list of 8-bit
  characters). The functions below are the library calls the sources make, under the
  names the sources use.
\<close>

definition LF :: char where
  "LF = CHR 0x0A"

definition CR :: char where
  "CR = CHR 0x0D"

definition QUOTE :: char where
  "QUOTE = CHR 0x27"

text \<open>\<^verbatim>\<open>strings.HasPrefix(s, prefix)\<close>: \<^verbatim>\<open>len(s) >= len(prefix) && s[:len(prefix)] == prefix\<close>.\<close>

definition HasPrefix :: "string \<Rightarrow> string \<Rightarrow> bool" where
  "HasPrefix s p = (length p \<le> length s \<and> take (length p) s = p)"

text \<open>\<^verbatim>\<open>strings.Contains(s, substr)\<close>: \<open>substr\<close> occurs at some offset of \<open>s\<close>.\<close>

fun Contains :: "string \<Rightarrow> string \<Rightarrow> bool" where
  "Contains [] sub = (sub = [])"
| "Contains (c # cs) sub = (HasPrefix (c # cs) sub \<or> Contains cs sub)"

subsection \<open>\<^verbatim>\<open>bufio.Scanner\<close> with the default \<^verbatim>\<open>ScanLines\<close> split function\<close>

text \<open>
  Every error value the modelled code creates or receives. The constructors that stand
  for \<^verbatim>\<open>fmt.Errorf\<close> calls keep the arguments of the format string.
\<close>

datatype error =
    ErrTooLong
      \<comment> \<open>\<^verbatim>\<open>bufio.ErrTooLong\<close>: "bufio.Scanner: token too long"\<close>
  | ExitError int
      \<comment> \<open>\<^verbatim>\<open>*exec.ExitError\<close>: the process ran and left this exit status\<close>
  | OtherError string
      \<comment> \<open>any other error value handed over by the environment\<close>
  | SpaceshipExited int string
      \<comment> \<open>"spaceship command exited with status %d, output: %s"\<close>
  | SpaceshipFailed string
      \<comment> \<open>"spaceship command failed with output: %s"\<close>
  | NoResponse string
      \<comment> \<open>"output does not contain response: %s"\<close>
  | UnmarshalFailed error string
      \<comment> \<open>"failed to unmarshal response: %v (%s)"\<close>
  | ProfilesInconsistentError string
      \<comment> \<open>\<^verbatim>\<open>autocodesign.NewProfilesInconsistentError(errors.New(response.Error))\<close>\<close>
  | DevPortalQueryFailed string
      \<comment> \<open>"failed to query Developer Portal: %s"\<close>
  | RemoveCachesFailed error
      \<comment> \<open>"failed to remove invalid Swift package caches, error: %s"\<close>

text \<open>\<^verbatim>\<open>bufio.MaxScanTokenSize = 64 * 1024\<close>, the largest buffer a default scanner grows to.\<close>

definition MaxScanTokenSize :: nat where
  "MaxScanTokenSize = 64 * 1024"

text \<open>\<^verbatim>\<open>dropCR\<close>: a line loses one trailing carriage return.\<close>

definition dropCR :: "string \<Rightarrow> string" where
  "dropCR data = (if data \<noteq> [] \<and> last data = CR then butlast data else data)"

text \<open>
  The scanner loop \<^verbatim>\<open>for scanner.Scan() { ... scanner.Text() ... }\<close> followed by
  \<^verbatim>\<open>scanner.Err()\<close>, on a \<^verbatim>\<open>strings.Reader\<close>: the tokens delivered, in order, and the
  error the scanner stopped with. A token is the text up to the next line feed (or up to
  the end of the input, when that text is not empty). The scanner stops with
  \<^verbatim>\<open>ErrTooLong\<close> when its buffer of \<open>MaxScanTokenSize\<close> bytes is full and holds no line
  feed, that is when the pending text has \<open>MaxScanTokenSize\<close> bytes or more before its
  line feed; the tokens before that point have been delivered.
\<close>

function scanner_run :: "string \<Rightarrow> string list \<times> error option" where
  "scanner_run data =
     (if data = [] then ([], None)
      else
        let seg = takeWhile (\<lambda>c. c \<noteq> LF) data;
            rest = dropWhile (\<lambda>c. c \<noteq> LF) data
        in if MaxScanTokenSize \<le> length seg then ([], Some ErrTooLong)
           else (case rest of
                   [] \<Rightarrow> ([dropCR seg], None)
                 | _ # rest' \<Rightarrow>
                     (case scanner_run rest' of (ts, e) \<Rightarrow> (dropCR seg # ts, e))))"
  by pat_completeness auto
termination
proof (relation "measure length")
  show "wf (measure length)" by simp
next
  fix data :: string and seg rest :: string and x :: char and rest' :: string
  assume "rest = dropWhile (\<lambda>c. c \<noteq> LF) data" and "rest = x # rest'"
  then have "dropWhile (\<lambda>c. c \<noteq> LF) data = x # rest'" by simp
  then have "length rest' < length (dropWhile (\<lambda>c. c \<noteq> LF) data)" by simp
  also have "\<dots> \<le> length data" by (rule length_dropWhile_le)
  finally show "(rest', data) \<in> measure length" by simp
qed

declare scanner_run.simps [simp del]

text \<open>A line of \<open>MaxScanTokenSize\<close> bytes with no line feed, used as a concrete input.\<close>

definition oversized_line :: string where
  "oversized_line = replicate 65536 (CHR ''a'')"


text \<open>
  Splitting a text at every line feed, with no limit on the length of a line: the lines
  that the multi-line anchors \<^verbatim>\<open>^\<close> and \<^verbatim>\<open>$\<close> of a regular expression delimit.
\<close>

fun split_LF :: "string \<Rightarrow> string list" where
  "split_LF [] = [[]]"
| "split_LF (c # cs) =
     (if c = LF then [] # split_LF cs
      else (case split_LF cs of
              [] \<Rightarrow> [[c]]
            | l # ls \<Rightarrow> (c # l) # ls))"

text \<open>\<^verbatim>\<open>strings.Join(elems, sep)\<close>.\<close>

fun Join :: "string list \<Rightarrow> string \<Rightarrow> string" where
  "Join [] sep = []"
| "Join [x] sep = x"
| "Join (x # y # xs) sep = x @ sep @ Join (y # xs) sep"

text \<open>
  \<^verbatim>\<open>base64.StdEncoding.EncodeToString\<close>: the alphabet of RFC 4648, three bytes to four
  characters, the last group padded with \<^verbatim>\<open>=\<close>.
\<close>

definition encodeStd :: string where
  "encodeStd = ''ABCDEFGHIJKLMNOPQRSTUVWXYZabcdefghijklmnopqrstuvwxyz0123456789+/''"

definition b64 :: "nat \<Rightarrow> char" where
  "b64 n = encodeStd ! (n mod 64)"

fun EncodeToString :: "string \<Rightarrow> string" where
  "EncodeToString [] = []"
| "EncodeToString [a] =
     (let x = (of_char a :: nat)
      in [b64 (x div 4), b64 ((x mod 4) * 16), CHR ''='', CHR ''=''])"
| "EncodeToString [a, b] =
     (let x = (of_char a :: nat); y = (of_char b :: nat)
      in [b64 (x div 4), b64 ((x mod 4) * 16 + y div 16), b64 ((y mod 16) * 4), CHR ''=''])"
| "EncodeToString (a # b # c # rest) =
     (let x = (of_char a :: nat); y = (of_char b :: nat); z = (of_char c :: nat)
      in [b64 (x div 4), b64 ((x mod 4) * 16 + y div 16),
          b64 ((y mod 16) * 4 + z div 64), b64 (z mod 64)] @ EncodeToString rest)"

section \<open>Diagnostic extraction: \<^verbatim>\<open>findXcodebuildErrors\<close> and \<^verbatim>\<open>NewNSError\<close>\<close>

record NSError =
  Description :: string
  Suggestion :: string

text \<open>
  The group \<^verbatim>\<open>(.+?)\<close> followed by the delimiter \<open>d\<close>, tried at the start of \<open>s\<close>: the dot
  takes one character that is not a line feed, then as few more as reach the first
  \<open>d\<close>, never crossing a line feed. The result is the captured group.
\<close>

fun lazy_group :: "char \<Rightarrow> string \<Rightarrow> string option" where
  "lazy_group d [] = None"
| "lazy_group d (c # r) =
     (if c = LF then None
      else let seg = takeWhile (\<lambda>x. x \<noteq> LF) r
           in if d \<in> set seg then Some (c # takeWhile (\<lambda>x. x \<noteq> d) seg) else None)"

text \<open>
  \<^verbatim>\<open>regexp.MustCompile(key + `(.+?),|` + key + `(.+?)}`).FindStringSubmatch(str)\<close>, the shape
  of both patterns of \<^verbatim>\<open>NewNSError\<close>. Go returns the leftmost match, and at one offset
  the first alternative that matches. The result is the whole match and the two groups
  (the group of the alternative not taken is empty); no match is the empty list.
\<close>

fun FindStringSubmatch_field :: "string \<Rightarrow> string \<Rightarrow> string list" where
  "FindStringSubmatch_field key [] = []"
| "FindStringSubmatch_field key (c # cs) =
     (if HasPrefix (c # cs) key then
        (case lazy_group (CHR '','') (drop (length key) (c # cs)) of
           Some g \<Rightarrow> [key @ g @ '','', g, []]
         | None \<Rightarrow>
            (case lazy_group (CHR ''}'') (drop (length key) (c # cs)) of
               Some g \<Rightarrow> [key @ g @ ''}'', [], g]
             | None \<Rightarrow> FindStringSubmatch_field key cs))
      else FindStringSubmatch_field key cs)"

definition descriptionPattern :: "string \<Rightarrow> string list" where
  "descriptionPattern = FindStringSubmatch_field ''NSLocalizedDescription=''"

definition suggestionPattern :: "string \<Rightarrow> string list" where
  "suggestionPattern = FindStringSubmatch_field ''NSLocalizedRecoverySuggestion=''"

fun first_nonempty :: "string list \<Rightarrow> string" where
  "first_nonempty [] = []"
| "first_nonempty (m # ms) = (if m \<noteq> [] then m else first_nonempty ms)"

text \<open>\<^verbatim>\<open>findFirstSubMatch(str, pattern)\<close>; the compiled pattern is passed as its match function.\<close>

definition findFirstSubMatch :: "string \<Rightarrow> (string \<Rightarrow> string list) \<Rightarrow> string" where
  "findFirstSubMatch str exp =
     (let matches = exp str
      in if 1 < length matches then first_nonempty (tl matches) else [])"

definition isNSError :: "string \<Rightarrow> bool" where
  "isNSError str =
     (Contains str ''Error '' \<and> Contains str ''Domain='' \<and>
      Contains str ''Code='' \<and> Contains str ''UserInfo='')"

text \<open>\<^verbatim>\<open>NewNSError\<close> returns a pointer: \<open>None\<close> is \<^verbatim>\<open>nil\<close>.\<close>

definition NewNSError :: "string \<Rightarrow> NSError option" where
  "NewNSError str =
     (if \<not> isNSError str then None
      else let description = findFirstSubMatch str descriptionPattern
           in if description = [] then None
              else let suggestion = findFirstSubMatch str suggestionPattern
                   in Some \<lparr>Description = description, Suggestion = suggestion\<rparr>)"

text \<open>The method \<^verbatim>\<open>func (e NSError) Error() string\<close>.\<close>

definition NSError_Error :: "NSError \<Rightarrow> string" where
  "NSError_Error e =
     (if Suggestion e \<noteq> [] then Description e @ '' '' @ Suggestion e else Description e)"

text \<open>
  The body of the scanning loop of \<^verbatim>\<open>findXcodebuildErrors\<close>, on the two slices
  \<^verbatim>\<open>errorLines\<close> and \<^verbatim>\<open>nserrors\<close>.
\<close>

definition scan_body :: "string list \<times> NSError list \<Rightarrow> string \<Rightarrow> string list \<times> NSError list" where
  "scan_body acc line =
     (case acc of (errorLines, nserrors) \<Rightarrow>
        if HasPrefix line ''error: '' then (errorLines @ [line], nserrors)
        else if HasPrefix line ''Error '' then
          (case NewNSError line of
             Some e \<Rightarrow> (errorLines, nserrors @ [e])
           | None \<Rightarrow> (errorLines, nserrors))
        else (errorLines, nserrors))"

text \<open>
  \<^verbatim>\<open>findXcodebuildErrors\<close> returns a slice of strings and nothing else; a \<^verbatim>\<open>nil\<close> slice
  and an empty slice are both the empty list.
\<close>

definition findXcodebuildErrors :: "string \<Rightarrow> string list" where
  "findXcodebuildErrors out =
     (case scanner_run out of (lines, err) \<Rightarrow>
        (case foldl scan_body ([], []) lines of (errorLines, nserrors) \<Rightarrow>
           if err \<noteq> None then []
           else if length nserrors = length errorLines then map NSError_Error nserrors
           else errorLines))"

subsection \<open>The extraction as the specification words it\<close>

text \<open>
  The lines of the full text, with no limit on their length: the text split at line
  feeds, a final empty piece dropped, one trailing carriage return removed from each.
\<close>

definition text_lines :: "string \<Rightarrow> string list" where
  "text_lines out =
     map dropCR (if last (split_LF out) = [] then butlast (split_LF out) else split_LF out)"

definition plain_error_lines :: "string \<Rightarrow> string list" where
  "plain_error_lines out = filter (\<lambda>l. HasPrefix l ''error: '') (text_lines out)"

definition structured_records :: "string \<Rightarrow> NSError list" where
  "structured_records out =
     List.map_filter NewNSError (filter (\<lambda>l. HasPrefix l ''Error '') (text_lines out))"

definition render_record :: "NSError \<Rightarrow> string" where
  "render_record e =
     (if Suggestion e = [] then Description e else Description e @ '' '' @ Suggestion e)"

definition count_then_select :: "string \<Rightarrow> string list" where
  "count_then_select out =
     (if length (structured_records out) = length (plain_error_lines out)
      then map render_record (structured_records out)
      else plain_error_lines out)"

text \<open>A line the extractor recognizes: a plain error line or one that yields a record.\<close>

definition recognizable :: "string \<Rightarrow> bool" where
  "recognizable l = (HasPrefix l ''error: '' \<or> (HasPrefix l ''Error '' \<and> NewNSError l \<noteq> None))"


section \<open>Secondary log discovery: \<^verbatim>\<open>findIDEDistrubutionLogsPath\<close>\<close>

text \<open>The literal part of the pattern, up to and including the opening quote.\<close>

definition logs_marker :: string where
  "logs_marker =
     ''IDEDistribution: -[IDEDistributionLogging _createLoggingBundleAtPath:]: Created bundle at path '' @ [QUOTE]"

text \<open>The text of \<open>seg\<close> before its last occurrence of \<open>d\<close>.\<close>

definition before_last :: "char \<Rightarrow> string \<Rightarrow> string" where
  "before_last d seg = rev (tl (dropWhile (\<lambda>x. x \<noteq> d) (rev seg)))"

text \<open>
  \<^verbatim>\<open>re.FindStringSubmatch(line)\<close> for the pattern \<^verbatim>\<open>...Created bundle at path '(?P<log_path>.*)'\<close>:
  the leftmost occurrence of the literal part that has a quote after it on the same
  line; the greedy group runs to the last such quote. The result is the whole match and
  the group; no match is the empty list.
\<close>

fun FindStringSubmatch_logs :: "string \<Rightarrow> string list" where
  "FindStringSubmatch_logs [] = []"
| "FindStringSubmatch_logs (c # cs) =
     (if HasPrefix (c # cs) logs_marker then
        (let seg = takeWhile (\<lambda>x. x \<noteq> LF) (drop (length logs_marker) (c # cs))
         in if QUOTE \<in> set seg
            then [logs_marker @ before_last QUOTE seg @ [QUOTE], before_last QUOTE seg]
            else FindStringSubmatch_logs cs)
      else FindStringSubmatch_logs cs)"

text \<open>The loop over the scanned lines, left at the first line that matches.\<close>

fun first_log_path :: "string list \<Rightarrow> string option" where
  "first_log_path [] = None"
| "first_log_path (line # ls) =
     (let match = FindStringSubmatch_logs line
      in if length match = 2 then Some (match ! 1) else first_log_path ls)"

definition findIDEDistrubutionLogsPath :: "string \<Rightarrow> string \<times> error option" where
  "findIDEDistrubutionLogsPath output =
     (case scanner_run output of (lines, err) \<Rightarrow>
        (case first_log_path lines of
           Some path \<Rightarrow> (path, None)
         | None \<Rightarrow>
            (case err of
               Some e \<Rightarrow> ([], Some e)
             | None \<Rightarrow> ([], None))))"

section \<open>The spaceship bridge: \<^verbatim>\<open>runSpaceshipCommand\<close>\<close>

record AppleID =
  Username :: string
  Password :: string
  Session :: string

record Client =
  workDir :: string
  authConfig :: AppleID
  teamID :: string

text \<open>
  What \<^verbatim>\<open>cmdFactory.CreateBundleExec("ruby", s, "", &command.Opts{Dir: c.workDir})\<close> is
  given: the command that is executed.
\<close>

record Command =
  cmd_name :: string
  cmd_args :: "string list"
  bundler_version :: string
  cmd_dir :: string

record spaceshipCommand =
  command :: Command
  printableCommandArgs :: string

definition createSpaceshipCommand :: "Client \<Rightarrow> string \<Rightarrow> string list \<Rightarrow> error + spaceshipCommand" where
  "createSpaceshipCommand c subCommand opts =
     (let authParams =
            [''--username'', Username (authConfig c),
             ''--password'', Password (authConfig c),
             ''--session'', EncodeToString (Session (authConfig c)),
             ''--team-id'', teamID c];
          s = [''main.rb'', ''--subcommand'', subCommand];
          s = s @ opts;
          printableCommand = Join s '' '';
          s = s @ authParams;
          cmd = \<lparr>cmd_name = ''ruby'', cmd_args = s, bundler_version = [], cmd_dir = workDir c\<rparr>
      in Inr \<lparr>command = cmd, printableCommandArgs = printableCommand\<rparr>)"

text \<open>The response struct of \<^verbatim>\<open>runSpaceshipCommandOnce\<close>.\<close>

record response =
  Error :: string
  ShouldRetry :: bool

text \<open>
  What the bridge does to the world, in order: log lines (format string and arguments),
  processes run, sleeps in seconds.
\<close>

datatype event =
    Debugf string "string list"
  | Warnf string nat
  | Exec Command
  | Sleep nat

record world =
  spawned :: nat
  events :: "event list"

text \<open>
  The environment of the bridge: \<^verbatim>\<open>RunAndReturnTrimmedCombinedOutput\<close> gives the output
  and error of a command run as the process number \<open>n\<close> (counting from 0), and
  \<^verbatim>\<open>json.Unmarshal\<close> decodes the matched text into the response struct.
\<close>

record bridge_env =
  RunAndReturnTrimmedCombinedOutput :: "Command \<Rightarrow> nat \<Rightarrow> string \<times> error option"
  json_Unmarshal :: "string \<Rightarrow> error + response"

text \<open>\<^verbatim>\<open>regexp.MustCompile(`(?m)^\{.*\}$`).FindString(output)\<close>: the first line that starts
  with an opening brace and ends with a closing one; no match is the empty string.\<close>

definition is_json_line :: "string \<Rightarrow> bool" where
  "is_json_line l = (2 \<le> length l \<and> hd l = CHR ''{'' \<and> last l = CHR ''}'')"

definition FindString_json :: "string \<Rightarrow> string" where
  "FindString_json output =
     (case filter is_json_line (split_LF output) of
        [] \<Rightarrow> []
      | m # _ \<Rightarrow> m)"

definition runSpaceshipCommandOnce ::
  "bridge_env \<Rightarrow> spaceshipCommand \<Rightarrow> world \<Rightarrow> (string \<times> error option) \<times> world" where
  "runSpaceshipCommandOnce env cmd st =
     (case RunAndReturnTrimmedCombinedOutput env (command cmd) (spawned st) of (output, err) \<Rightarrow>
        let st' = st\<lparr>spawned := Suc (spawned st), events := events st @ [Exec (command cmd)]\<rparr>
        in (case err of
              Some e \<Rightarrow>
                (case e of
                   ExitError code \<Rightarrow> ((output, Some (SpaceshipExited code output)), st')
                 | _ \<Rightarrow> ((output, Some (SpaceshipFailed output)), st'))
            | None \<Rightarrow>
                let match = FindString_json output
                in if match = [] then (([], Some (NoResponse output)), st')
                   else (case json_Unmarshal env match of
                           Inl e \<Rightarrow> (([], Some (UnmarshalFailed e match)), st')
                         | Inr response \<Rightarrow>
                             if ShouldRetry response
                             then (([], Some (ProfilesInconsistentError (Error response))), st')
                             else if Error response \<noteq> []
                             then (([], Some (DevPortalQueryFailed (Error response))), st')
                             else ((match, None), st'))))"

definition shouldRetrySpaceshipCommand :: "string \<Rightarrow> bool" where
  "shouldRetrySpaceshipCommand out =
     (if out = [] then False else Contains out ''503 Service Temporarily Unavailable'')"

definition retry_warning :: string where
  "retry_warning = ''spaceship command failed with a retryable error, retrying (%d. attempt)...''"

text \<open>
  The loop \<^verbatim>\<open>for i := 1; i <= 3; i++\<close> of \<^verbatim>\<open>runSpaceshipCommand\<close>, entered at \<open>i\<close> with the
  current values of \<^verbatim>\<open>spaceshipOut\<close> and \<^verbatim>\<open>spaceshipErr\<close>.
\<close>

function runSpaceshipCommand_loop ::
  "bridge_env \<Rightarrow> Client \<Rightarrow> string \<Rightarrow> string list \<Rightarrow> nat \<Rightarrow> string \<times> error option \<Rightarrow> world
     \<Rightarrow> (string \<times> error option) \<times> world" where
  "runSpaceshipCommand_loop env c subCommand opts i cur st =
     (if i \<le> 3 then
        (case createSpaceshipCommand c subCommand opts of
           Inl err \<Rightarrow> (([], Some err), st)
         | Inr cmd \<Rightarrow>
            (case runSpaceshipCommandOnce env cmd
                    (st\<lparr>events := events st @ [Debugf ''$ %s'' [printableCommandArgs cmd]]\<rparr>) of
               ((spaceshipOut, spaceshipErr), st2) \<Rightarrow>
                 if spaceshipErr = None then ((spaceshipOut, None), st2)
                 else if shouldRetrySpaceshipCommand spaceshipOut then
                   runSpaceshipCommand_loop env c subCommand opts (i + 1) (spaceshipOut, spaceshipErr)
                     (st2\<lparr>events := events st2 @
                        [Debugf spaceshipOut [], Warnf retry_warning i, Sleep (i * 15)]\<rparr>)
                 else (([], spaceshipErr), st2)))
      else (cur, st))"
  by pat_completeness auto
termination
  by (relation "measure (\<lambda>(env, c, subCommand, opts, i, cur, st). 4 - i)") auto

declare runSpaceshipCommand_loop.simps [simp del]

definition runSpaceshipCommand ::
  "bridge_env \<Rightarrow> Client \<Rightarrow> string \<Rightarrow> string list \<Rightarrow> world \<Rightarrow> (string \<times> error option) \<times> world" where
  "runSpaceshipCommand env c subCommand opts st =
     runSpaceshipCommand_loop env c subCommand opts 1 ([], None) st"

text \<open>The processes run and the sleeps made, in order, without the log lines.\<close>

fun is_effect :: "event \<Rightarrow> bool" where
  "is_effect (Exec cmd) = True"
| "is_effect (Sleep n) = True"
| "is_effect (Debugf f as) = False"
| "is_effect (Warnf f n) = False"

fun is_Exec :: "event \<Rightarrow> bool" where
  "is_Exec (Exec cmd) = True"
| "is_Exec (Sleep n) = False"
| "is_Exec (Debugf f as) = False"
| "is_Exec (Warnf f n) = False"

section \<open>The archive step: \<^verbatim>\<open>runArchiveCommandWithRetry\<close>\<close>

datatype step_event =
    TDonef string
  | Println
  | Run_xcpretty
  | Run_xcodebuild
  | Warnf_cache_invalid error
  | RemoveAll string

record archive_world =
  runs :: nat
  trace :: "step_event list"

text \<open>
  The environment of the archive step: the output and error of the archive command run
  through xcpretty or directly, as the run number \<open>n\<close> (counting from 0); the result of
  \<^verbatim>\<open>os.RemoveAll\<close>; and the constant \<^verbatim>\<open>cache.SwiftPackagesStateInvalid\<close> of the xcodecache
  package, whose text the sources of the step do not hold.
\<close>

record archive_env =
  xcprettyCmd_Run :: "nat \<Rightarrow> string \<times> error option"
  archiveRootCmd_Run :: "nat \<Rightarrow> string \<times> error option"
  os_RemoveAll :: "string \<Rightarrow> error option"
  SwiftPackagesStateInvalid :: string

definition runArchiveCommand ::
  "archive_env \<Rightarrow> bool \<Rightarrow> archive_world \<Rightarrow> (string \<times> error option) \<times> archive_world" where
  "runArchiveCommand env useXcpretty st =
     (if useXcpretty then
        (xcprettyCmd_Run env (runs st),
         st\<lparr>runs := Suc (runs st), trace := trace st @ [TDonef ''$ %s'', Println, Run_xcpretty]\<rparr>)
      else
        (archiveRootCmd_Run env (runs st),
         st\<lparr>runs := Suc (runs st), trace := trace st @ [TDonef ''$ %s'', Println, Run_xcodebuild]\<rparr>))"

definition runArchiveCommandWithRetry ::
  "archive_env \<Rightarrow> bool \<Rightarrow> string \<Rightarrow> archive_world \<Rightarrow> (string \<times> error option) \<times> archive_world" where
  "runArchiveCommandWithRetry env useXcpretty swiftPackagesPath st =
     (case runArchiveCommand env useXcpretty st of ((output, err), st1) \<Rightarrow>
        (case err of
           Some e \<Rightarrow>
             if swiftPackagesPath \<noteq> [] \<and> Contains output (SwiftPackagesStateInvalid env) then
               (let st2 = st1\<lparr>trace := trace st1 @ [Warnf_cache_invalid e, RemoveAll swiftPackagesPath]\<rparr>
                in (case os_RemoveAll env swiftPackagesPath of
                      Some rmErr \<Rightarrow> ((output, Some (RemoveCachesFailed rmErr)), st2)
                    | None \<Rightarrow> runArchiveCommand env useXcpretty st2))
             else ((output, err), st1)
         | None \<Rightarrow> ((output, err), st1)))"

text \<open>The runs of the command and the deletions, in order, without the log lines.\<close>

fun is_action :: "step_event \<Rightarrow> bool" where
  "is_action Run_xcpretty = True"
| "is_action Run_xcodebuild = True"
| "is_action (RemoveAll p) = True"
| "is_action (TDonef f) = False"
| "is_action Println = False"
| "is_action (Warnf_cache_invalid e) = False"


section \<open>Vocabulary of the statements\<close>

text \<open>
  The process number \<open>n\<close> fails at the process level and its output makes
  \<^verbatim>\<open>shouldRetrySpaceshipCommand\<close> true.
\<close>

definition process_retryable :: "bridge_env \<Rightarrow> Command \<Rightarrow> nat \<Rightarrow> bool" where
  "process_retryable env cmd n =
     (case RunAndReturnTrimmedCombinedOutput env cmd n of
        (output, err) \<Rightarrow> err \<noteq> None \<and> shouldRetrySpaceshipCommand output)"

text \<open>
  The processes and sleeps of the attempts \<open>i\<close>, \<open>i + 1\<close>, ... of at most \<open>fuel\<close>
  iterations, the first of them running the process number \<open>n\<close>.
\<close>

fun attempts_from :: "bridge_env \<Rightarrow> Command \<Rightarrow> nat \<Rightarrow> nat \<Rightarrow> nat \<Rightarrow> event list" where
  "attempts_from env cmd 0 i n = []"
| "attempts_from env cmd (Suc fuel) i n =
     Exec cmd #
     (if process_retryable env cmd n
      then Sleep (i * 15) # attempts_from env cmd fuel (Suc i) (Suc n)
      else [])"

text \<open>
  \<open>k\<close> attempts in order, the attempt \<open>j + 1\<close> right after a sleep of \<open>j * 15\<close> seconds:
  run, sleep 15, run, sleep 30, run.
\<close>

fun backoff_schedule :: "Command \<Rightarrow> nat \<Rightarrow> event list" where
  "backoff_schedule cmd 0 = []"
| "backoff_schedule cmd (Suc 0) = [Exec cmd]"
| "backoff_schedule cmd (Suc (Suc k)) =
     backoff_schedule cmd (Suc k) @ [Sleep (Suc k * 15), Exec cmd]"

text \<open>The processes run and the sleeps made between the world \<open>st\<close> and the later \<open>st'\<close>.\<close>

definition new_effects :: "world \<Rightarrow> world \<Rightarrow> event list" where
  "new_effects st st' = filter is_effect (drop (length (events st)) (events st'))"

text \<open>A line on which the pattern of the log path matches.\<close>

definition matches_log_pattern :: "string \<Rightarrow> bool" where
  "matches_log_pattern l = (length (FindStringSubmatch_logs l) = 2)"

text \<open>
  The runs of the archive command and the deletions made between the world \<open>st\<close> and
  the later \<open>st'\<close>.
\<close>

definition new_actions :: "archive_world \<Rightarrow> archive_world \<Rightarrow> step_event list" where
  "new_actions st st' = filter is_action (drop (length (trace st)) (trace st'))"

section \<open>Concrete inputs\<close>

text \<open>Texts used to run the definitions: a log with one plain error line and one
  structured record, and a line with the three markers and no description.\<close>

definition sample_log :: string where
  "sample_log =
     ''error: x'' @ [LF] @
     ''Error Domain=D Code=9 UserInfo={NSLocalizedDescription=a, NSLocalizedRecoverySuggestion=b}'' @ [LF]"


text \<open>A client, two payloads, a decoder for them, and environments of the bridge.\<close>

definition sample_client :: Client where
  "sample_client =
     \<lparr>workDir = ''/tmp/spaceship'',
      authConfig = \<lparr>Username = ''user'', Password = ''secret'', Session = ''foobar''\<rparr>,
      teamID = ''TEAM''\<rparr>"

definition retry_payload :: string where
  \<open>retry_payload = ''{"error":"x","retry":true}''\<close>

definition clean_payload :: string where
  \<open>clean_payload = ''{"error":"","retry":false}''\<close>

definition sample_Unmarshal :: "string \<Rightarrow> error + response" where
  "sample_Unmarshal s =
     (if s = retry_payload then Inr \<lparr>Error = ''x'', ShouldRetry = True\<rparr>
      else if s = clean_payload then Inr \<lparr>Error = [], ShouldRetry = False\<rparr>
      else Inl (OtherError ''invalid character''))"

definition unavailable :: string where
  "unavailable = ''503 Service Temporarily Unavailable''"

text \<open>The portal asks for a retry on the first two runs and answers cleanly on the third.\<close>

definition retry_then_clean_env :: bridge_env where
  "retry_then_clean_env =
     \<lparr>RunAndReturnTrimmedCombinedOutput =
        (\<lambda>cmd n. if n < 2 then (retry_payload, None) else (clean_payload, None)),
      json_Unmarshal = sample_Unmarshal\<rparr>"

text \<open>The first process exits with status 1 on a 503 page, the second answers cleanly.\<close>

definition unavailable_then_clean_env :: bridge_env where
  "unavailable_then_clean_env =
     \<lparr>RunAndReturnTrimmedCombinedOutput =
        (\<lambda>cmd n. if n = 0 then (unavailable, Some (ExitError 1)) else (clean_payload, None)),
      json_Unmarshal = sample_Unmarshal\<rparr>"

text \<open>Every process exits with status 1 on a 503 page.\<close>

definition always_unavailable_env :: bridge_env where
  "always_unavailable_env =
     \<lparr>RunAndReturnTrimmedCombinedOutput = (\<lambda>cmd n. (unavailable, Some (ExitError 1))),
      json_Unmarshal = sample_Unmarshal\<rparr>"

text \<open>Every process exits with status 1 and prints a stack trace.\<close>

definition crashing_env :: bridge_env where
  "crashing_env =
     \<lparr>RunAndReturnTrimmedCombinedOutput = (\<lambda>cmd n. (''main.rb:1: syntax error'', Some (ExitError 1))),
      json_Unmarshal = sample_Unmarshal\<rparr>"

text \<open>Every process succeeds and prints no response line.\<close>

definition no_response_env :: bridge_env where
  "no_response_env =
     \<lparr>RunAndReturnTrimmedCombinedOutput = (\<lambda>cmd n. (''Fetching certificates'', None)),
      json_Unmarshal = sample_Unmarshal\<rparr>"

definition world0 :: world where
  "world0 = \<lparr>spawned = 0, events = []\<rparr>"

definition sample_cmd :: spaceshipCommand where
  "sample_cmd =
     \<lparr>command =
        \<lparr>cmd_name = ''ruby'',
         cmd_args = [''main.rb'', ''--subcommand'', ''list_devices'',
                     ''--username'', ''user'', ''--password'', ''secret'',
                     ''--session'', ''Zm9vYmFy'', ''--team-id'', ''TEAM''],
         bundler_version = [],
         cmd_dir = ''/tmp/spaceship''\<rparr>,
      printableCommandArgs = ''main.rb --subcommand list_devices''\<rparr>"

text \<open>An export log that names two log bundles, and environments of the archive step.\<close>

definition export_log :: string where
  "export_log =
     ''Exporting'' @ [LF] @
     ''12:00 '' @ logs_marker @ ''/tmp/logs/xyz'' @ [QUOTE] @ ''.'' @ [CR, LF] @
     logs_marker @ ''/other'' @ [QUOTE]"

definition cache_invalid_env :: archive_env where
  "cache_invalid_env =
     \<lparr>xcprettyCmd_Run =
        (\<lambda>n. if n = 0 then (''error: cache is invalid'', Some (ExitError 65))
             else (''ARCHIVE SUCCEEDED'', None)),
      archiveRootCmd_Run =
        (\<lambda>n. if n = 0 then (''error: cache is invalid'', Some (ExitError 65))
             else (''ARCHIVE FAILED'', Some (ExitError 65))),
      os_RemoveAll = (\<lambda>p. None),
      SwiftPackagesStateInvalid = ''cache is invalid''\<rparr>"

definition locked_cache_env :: archive_env where
  "locked_cache_env = cache_invalid_env\<lparr>os_RemoveAll := (\<lambda>p. Some (OtherError ''permission denied''))\<rparr>"

definition archive_world0 :: archive_world where
  "archive_world0 = \<lparr>runs = 0, trace = []\<rparr>"

section \<open>Properties of the text primitives and of the scanner\<close>

lemma HasPrefix_Cons_hd: "HasPrefix s (d # p) \<Longrightarrow> s \<noteq> [] \<and> hd s = d"
  by (cases s) (auto simp: HasPrefix_def)

lemma HasPrefix_simps:
  "HasPrefix s [] = True"
  "HasPrefix [] (d # p) = False"
  "HasPrefix (c # s) (d # p) = (c = d \<and> HasPrefix s p)"
  by (auto simp: HasPrefix_def)

lemma plain_not_structured: "HasPrefix l ''error: '' \<Longrightarrow> \<not> HasPrefix l ''Error ''"
  by (auto dest!: HasPrefix_Cons_hd)

lemma split_LF_nonempty: "split_LF data \<noteq> []"
  by (induction data) (auto split: list.splits)

lemma split_LF_unfold:
  "split_LF data =
     (case dropWhile (\<lambda>c. c \<noteq> LF) data of
        [] \<Rightarrow> [takeWhile (\<lambda>c. c \<noteq> LF) data]
      | x # rest' \<Rightarrow> takeWhile (\<lambda>c. c \<noteq> LF) data # split_LF rest')"
proof (induction data)
  case Nil
  show ?case by simp
next
  case (Cons c cs)
  show ?case
  proof (cases "c = LF")
    case True
    then show ?thesis by simp
  next
    case False
    show ?thesis
    proof (cases "dropWhile (\<lambda>c. c \<noteq> LF) cs")
      case Nil
      with Cons have "split_LF cs = [takeWhile (\<lambda>c. c \<noteq> LF) cs]"
        by (simp only: list.case)
      with False Nil show ?thesis
        by (simp del: dropWhile_eq_Nil_conv)
    next
      case (Cons x rest')
      with Cons.IH have "split_LF cs = takeWhile (\<lambda>c. c \<noteq> LF) cs # split_LF rest'"
        by (simp only: list.case)
      with False Cons show ?thesis
        by (simp del: dropWhile_eq_Nil_conv)
    qed
  qed
qed

lemma text_lines_Nil: "text_lines [] = []"
  by (simp add: text_lines_def)

lemma text_lines_last:
  assumes "data \<noteq> []" and "dropWhile (\<lambda>c. c \<noteq> LF) data = []"
  shows "text_lines data = [dropCR data]"
proof -
  from assms(2) have tw: "takeWhile (\<lambda>c. c \<noteq> LF) data = data"
    by (metis append_Nil2 takeWhile_dropWhile_id)
  have "split_LF data = [data]"
    by (subst split_LF_unfold) (simp only: assms(2) tw list.case)
  with assms(1) show ?thesis by (simp add: text_lines_def)
qed

lemma text_lines_step:
  assumes "dropWhile (\<lambda>c. c \<noteq> LF) data = x # rest'"
  shows "text_lines data = dropCR (takeWhile (\<lambda>c. c \<noteq> LF) data) # text_lines rest'"
proof -
  have s: "split_LF data = takeWhile (\<lambda>c. c \<noteq> LF) data # split_LF rest'"
    using assms by (subst split_LF_unfold) simp
  show ?thesis
    using split_LF_nonempty [of rest'] by (simp add: text_lines_def s)
qed

lemma scanner_run_text_lines:
  "snd (scanner_run out) = None \<Longrightarrow> fst (scanner_run out) = text_lines out"
proof (induction out rule: scanner_run.induct)
  case (1 data)
  show ?case
  proof (cases "data = []")
    case True
    then show ?thesis by (simp add: scanner_run.simps text_lines_Nil)
  next
    case ne: False
    let ?seg = "takeWhile (\<lambda>c. c \<noteq> LF) data"
    let ?rest = "dropWhile (\<lambda>c. c \<noteq> LF) data"
    from "1.prems" ne have small: "\<not> MaxScanTokenSize \<le> length ?seg"
      by (subst (asm) scanner_run.simps) (auto simp: Let_def split: if_splits)
    show ?thesis
    proof (cases ?rest)
      case Nil
      then have tw: "?seg = data"
        by (metis append_Nil2 takeWhile_dropWhile_id)
      have "scanner_run data = ([dropCR data], None)"
        using ne small by (subst scanner_run.simps) (simp only: Let_def Nil tw list.case if_False)
      with ne Nil show ?thesis
        by (simp add: text_lines_last)
    next
      case (Cons x rest')
      from "1.prems" ne small Cons have "snd (scanner_run rest') = None"
        by (subst (asm) scanner_run.simps) (auto simp: Let_def split: prod.splits)
      with "1.IH" [OF ne refl refl small Cons] have "fst (scanner_run rest') = text_lines rest'"
        by simp
      with ne small Cons show ?thesis
        by (subst scanner_run.simps) (auto simp: text_lines_step split: prod.splits)
    qed
  qed
qed

lemma scan_body_step:
  "scan_body (el, ns) l =
     (el @ filter (\<lambda>l. HasPrefix l ''error: '') [l],
      ns @ List.map_filter NewNSError (filter (\<lambda>l. HasPrefix l ''Error '') [l]))"
  using plain_not_structured [of l]
  by (auto simp: scan_body_def List.map_filter_simps split: option.splits)

lemma foldl_scan_body:
  "foldl scan_body (el, ns) ls =
     (el @ filter (\<lambda>l. HasPrefix l ''error: '') ls,
      ns @ List.map_filter NewNSError (filter (\<lambda>l. HasPrefix l ''Error '') ls))"
proof (induction ls arbitrary: el ns)
  case Nil
  show ?case by (simp add: List.map_filter_simps)
next
  case (Cons l ls)
  have "foldl scan_body (el, ns) (l # ls) = foldl scan_body (scan_body (el, ns) l) ls"
    by simp
  also have "\<dots> = (el @ filter (\<lambda>l. HasPrefix l ''error: '') (l # ls),
      ns @ List.map_filter NewNSError (filter (\<lambda>l. HasPrefix l ''Error '') (l # ls)))"
    unfolding scan_body_step Cons
    by (simp add: List.map_filter_simps split: option.splits)
  finally show ?case .
qed

lemma NSError_Error_render: "NSError_Error e = render_record e"
  by (simp add: NSError_Error_def render_record_def)

lemma findXcodebuildErrors_scan_ok:
  assumes "snd (scanner_run out) = None"
  shows "findXcodebuildErrors out = count_then_select out"
proof -
  from assms obtain ls where sr: "scanner_run out = (ls, None)"
    by (cases "scanner_run out") auto
  with scanner_run_text_lines [OF assms] have ls: "ls = text_lines out" by simp
  have m: "map NSError_Error = map render_record"
    by (rule ext) (simp add: NSError_Error_render)
  show ?thesis
    unfolding findXcodebuildErrors_def count_then_select_def plain_error_lines_def
      structured_records_def sr ls [symmetric]
    by (simp add: foldl_scan_body m)
qed

lemma findXcodebuildErrors_scan_failed:
  "snd (scanner_run out) \<noteq> None \<Longrightarrow> findXcodebuildErrors out = []"
  by (auto simp: findXcodebuildErrors_def split: prod.splits)


lemma scanner_run_too_long:
  assumes "data \<noteq> []" and "MaxScanTokenSize \<le> length (takeWhile (\<lambda>c. c \<noteq> LF) data)"
  shows "scanner_run data = ([], Some ErrTooLong)"
  using assms by (subst scanner_run.simps) (simp add: Let_def)

lemma scanner_run_line:
  assumes "LF \<notin> set r" and "length r < MaxScanTokenSize"
  shows "scanner_run (r @ LF # b) = (dropCR r # fst (scanner_run b), snd (scanner_run b))"
proof -
  have tw: "takeWhile (\<lambda>c. c \<noteq> LF) (r @ LF # b) = r"
    using assms(1) by (induction r) auto
  have dw: "dropWhile (\<lambda>c. c \<noteq> LF) (r @ LF # b) = LF # b"
    using assms(1) by (induction r) auto
  show ?thesis
    using assms(2)
    by (subst scanner_run.simps) (simp add: tw dw Let_def split: prod.splits)
qed

lemma text_lines_line:
  assumes "LF \<notin> set r"
  shows "text_lines (r @ LF # b) = dropCR r # text_lines b"
proof -
  have tw: "takeWhile (\<lambda>c. c \<noteq> LF) (r @ LF # b) = r"
    using assms(1) by (induction r) auto
  have dw: "dropWhile (\<lambda>c. c \<noteq> LF) (r @ LF # b) = LF # b"
    using assms(1) by (induction r) auto
  show ?thesis
    using text_lines_step [OF dw] by (simp add: tw)
qed


lemma replicate_not_HasPrefix:
  "c \<noteq> d \<Longrightarrow> \<not> HasPrefix (replicate n c) (d # p)"
  by (cases n) (auto simp: HasPrefix_def)

lemma scanner_run_replicate_too_long:
  assumes "c \<noteq> LF" and "MaxScanTokenSize \<le> n"
  shows "scanner_run (replicate n c) = ([], Some ErrTooLong)"
proof -
  have "0 < MaxScanTokenSize" by (simp add: MaxScanTokenSize_def)
  with assms(2) have "replicate n c \<noteq> []" by auto
  moreover have "takeWhile (\<lambda>c. c \<noteq> LF) (replicate n c) = replicate n c"
    using assms(1) by (simp add: takeWhile_replicate)
  ultimately show ?thesis
    using assms(2) by (intro scanner_run_too_long) simp_all
qed

lemma text_lines_replicate:
  assumes "c \<noteq> LF" and "c \<noteq> CR" and "0 < n"
  shows "text_lines (replicate n c) = [replicate n c]"
proof -
  have "dropWhile (\<lambda>c. c \<noteq> LF) (replicate n c) = []"
    using assms(1) by (simp add: dropWhile_replicate)
  moreover have "replicate n c \<noteq> []" using assms(3) by simp
  ultimately have "text_lines (replicate n c) = [dropCR (replicate n c)]"
    by (intro text_lines_last)
  moreover have "dropCR (replicate n c) = replicate n c"
    using assms(2,3) by (simp add: dropCR_def)
  ultimately show ?thesis by simp
qed

lemma foldl_scan_body_unrecognizable:
  "\<not> list_ex recognizable ls \<Longrightarrow> foldl scan_body acc ls = acc"
  by (induction ls arbitrary: acc)
     (auto simp: recognizable_def scan_body_def split: option.splits prod.splits)


lemma scanner_run_oversized_line: "scanner_run oversized_line = ([], Some ErrTooLong)"
  unfolding oversized_line_def
  by (rule scanner_run_replicate_too_long) (simp_all add: LF_def MaxScanTokenSize_def)

text \<open>The base64 encoding on the test vectors of RFC 4648.\<close>

lemma EncodeToString_rfc4648:
  "EncodeToString '''' = ''''"
  "EncodeToString ''f'' = ''Zg==''"
  "EncodeToString ''fo'' = ''Zm8=''"
  "EncodeToString ''foo'' = ''Zm9v''"
  "EncodeToString ''foob'' = ''Zm9vYg==''"
  "EncodeToString ''fooba'' = ''Zm9vYmE=''"
  "EncodeToString ''foobar'' = ''Zm9vYmFy''"
  by (simp_all add: encodeStd_def b64_def)

text \<open>\<^verbatim>\<open>NewNSError\<close> on the example line that the comment of \<^verbatim>\<open>isNSError\<close> quotes.\<close>

lemma NewNSError_documented_example:
  \<open>NewNSError ''Error Domain=IDEProvisioningErrorDomain Code=9 ""ios-simple-objc.app" requires a provisioning profile." UserInfo={IDEDistributionIssueSeverity=3, NSLocalizedDescription="ios-simple-objc.app" requires a provisioning profile., NSLocalizedRecoverySuggestion=Add a profile to the "provisioningProfiles" dictionary in your Export Options property list.}''
   = Some \<lparr>Description = ''"ios-simple-objc.app" requires a provisioning profile.'',
            Suggestion = ''Add a profile to the "provisioningProfiles" dictionary in your Export Options property list.''\<rparr>\<close>
  by (simp add: NewNSError_def isNSError_def HasPrefix_simps findFirstSubMatch_def
      descriptionPattern_def suggestionPattern_def LF_def)

lemmas extractor_eval =
  scanner_run.simps LF_def CR_def MaxScanTokenSize_def dropCR_def HasPrefix_def
  NewNSError_def isNSError_def findFirstSubMatch_def descriptionPattern_def
  suggestionPattern_def NSError_Error_def scan_body_def findXcodebuildErrors_def

section \<open>Properties of the bridge\<close>

lemma createSpaceshipCommand_sample:
  "createSpaceshipCommand sample_client ''list_devices'' [] = Inr sample_cmd"
  by (simp add: createSpaceshipCommand_def sample_client_def sample_cmd_def encodeStd_def b64_def)

lemma runSpaceshipCommandOnce_world:
  "snd (runSpaceshipCommandOnce env cmd st) =
     st\<lparr>spawned := Suc (spawned st), events := events st @ [Exec (command cmd)]\<rparr>"
  by (simp add: runSpaceshipCommandOnce_def Let_def
      split: prod.splits option.splits error.splits sum.splits)

lemma runSpaceshipCommandOnce_retryable:
  "(snd (fst (runSpaceshipCommandOnce env cmd st)) \<noteq> None \<and>
    shouldRetrySpaceshipCommand (fst (fst (runSpaceshipCommandOnce env cmd st)))) =
   process_retryable env (command cmd) (spawned st)"
  by (auto simp: runSpaceshipCommandOnce_def process_retryable_def Let_def
      shouldRetrySpaceshipCommand_def
      split: prod.splits option.splits error.splits sum.splits)

lemma runSpaceshipCommand_loop_done:
  "3 < i \<Longrightarrow> runSpaceshipCommand_loop env c subCommand opts i cur st = (cur, st)"
  by (subst runSpaceshipCommand_loop.simps) simp

lemma runSpaceshipCommand_loop_step:
  assumes "i \<le> 3" and "createSpaceshipCommand c subCommand opts = Inr cmd"
    and "runSpaceshipCommandOnce env cmd
           (st\<lparr>events := events st @ [Debugf ''$ %s'' [printableCommandArgs cmd]]\<rparr>) = (r, st2)"
  shows "runSpaceshipCommand_loop env c subCommand opts i cur st =
     (if snd r = None then ((fst r, None), st2)
      else if shouldRetrySpaceshipCommand (fst r) then
        runSpaceshipCommand_loop env c subCommand opts (i + 1) r
          (st2\<lparr>events := events st2 @ [Debugf (fst r) [], Warnf retry_warning i, Sleep (i * 15)]\<rparr>)
      else (([], snd r), st2))"
  using assms by (subst runSpaceshipCommand_loop.simps) (simp split: prod.splits)


lemma runSpaceshipCommand_loop_effects:
  assumes cmd: "createSpaceshipCommand c subCommand opts = Inr cmd"
  shows "4 - i = d \<Longrightarrow> i \<le> 4 \<Longrightarrow>
    \<exists>evs. events (snd (runSpaceshipCommand_loop env c subCommand opts i cur st)) = events st @ evs \<and>
       filter is_effect evs = attempts_from env (command cmd) d i (spawned st) \<and>
       spawned (snd (runSpaceshipCommand_loop env c subCommand opts i cur st)) =
         spawned st + length (filter is_Exec evs)"
proof (induction d arbitrary: i cur st)
  case 0
  then have "3 < i" by simp
  then show ?case by (simp add: runSpaceshipCommand_loop_done)
next
  case (Suc d)
  then have i: "i \<le> 3" and d: "4 - (i + 1) = d" and i': "i + 1 \<le> 4" by simp_all
  let ?st1 = "st\<lparr>events := events st @ [Debugf ''$ %s'' [printableCommandArgs cmd]]\<rparr>"
  obtain r st2 where once: "runSpaceshipCommandOnce env cmd ?st1 = (r, st2)"
    by (cases "runSpaceshipCommandOnce env cmd ?st1") auto
  have st2: "st2 = st\<lparr>spawned := Suc (spawned st),
      events := events st @ [Debugf ''$ %s'' [printableCommandArgs cmd], Exec (command cmd)]\<rparr>"
    using runSpaceshipCommandOnce_world [of env cmd ?st1] once by simp
  have retry: "(snd r \<noteq> None \<and> shouldRetrySpaceshipCommand (fst r)) =
      process_retryable env (command cmd) (spawned st)"
    using runSpaceshipCommandOnce_retryable [of env cmd ?st1] once by simp
  note step = runSpaceshipCommand_loop_step [OF i cmd once, of cur]
  show ?case
  proof (cases "snd r \<noteq> None \<and> shouldRetrySpaceshipCommand (fst r)")
    case False
    then have res: "snd (runSpaceshipCommand_loop env c subCommand opts i cur st) = st2"
      unfolding step by auto
    from False retry have nr: "\<not> process_retryable env (command cmd) (spawned st)" by blast
    show ?thesis
      unfolding res st2 using nr
      by (intro exI [of _ "[Debugf ''$ %s'' [printableCommandArgs cmd], Exec (command cmd)]"]) simp
  next
    case True
    let ?st3 = "st2\<lparr>events := events st2 @
        [Debugf (fst r) [], Warnf retry_warning i, Sleep (i * 15)]\<rparr>"
    from True have res: "runSpaceshipCommand_loop env c subCommand opts i cur st =
        runSpaceshipCommand_loop env c subCommand opts (i + 1) r ?st3"
      unfolding step by auto
    from True retry have rt: "process_retryable env (command cmd) (spawned st)" by blast
    from Suc.IH [OF d i', of r ?st3] obtain evs where
      e: "events (snd (runSpaceshipCommand_loop env c subCommand opts (i + 1) r ?st3)) =
            events ?st3 @ evs"
      and f: "filter is_effect evs = attempts_from env (command cmd) d (i + 1) (spawned ?st3)"
      and s: "spawned (snd (runSpaceshipCommand_loop env c subCommand opts (i + 1) r ?st3)) =
            spawned ?st3 + length (filter is_Exec evs)"
      by blast
    show ?thesis
      unfolding res using e f s rt
      by (intro exI [of _ "[Debugf ''$ %s'' [printableCommandArgs cmd], Exec (command cmd),
            Debugf (fst r) [], Warnf retry_warning i, Sleep (i * 15)] @ evs"])
         (simp add: st2)
  qed
qed

lemma new_effects_append:
  "events st' = events st @ evs \<Longrightarrow> new_effects st st' = filter is_effect evs"
  by (simp add: new_effects_def)

lemma runSpaceshipCommand_effects:
  assumes cmd: "createSpaceshipCommand c subCommand opts = Inr cmd"
  shows "new_effects st (snd (runSpaceshipCommand env c subCommand opts st)) =
           attempts_from env (command cmd) 3 1 (spawned st) \<and>
         spawned (snd (runSpaceshipCommand env c subCommand opts st)) =
           spawned st + length (filter is_Exec (attempts_from env (command cmd) 3 1 (spawned st)))"
proof -
  from runSpaceshipCommand_loop_effects [OF cmd, of 1 3 env "([], None)" st]
  obtain evs where
    e: "events (snd (runSpaceshipCommand env c subCommand opts st)) = events st @ evs"
    and f: "filter is_effect evs = attempts_from env (command cmd) 3 1 (spawned st)"
    and s: "spawned (snd (runSpaceshipCommand env c subCommand opts st)) =
              spawned st + length (filter is_Exec evs)"
    unfolding runSpaceshipCommand_def by auto
  have "filter is_Exec evs = filter is_Exec (filter is_effect evs)"
    by (induction evs) (auto elim: is_Exec.elims)
  with new_effects_append [OF e] f s show ?thesis by simp
qed

lemma attempts_from_3:
  "attempts_from env cmd 3 1 n =
     (if \<not> process_retryable env cmd n then [Exec cmd]
      else if \<not> process_retryable env cmd (Suc n) then [Exec cmd, Sleep 15, Exec cmd]
      else if \<not> process_retryable env cmd (Suc (Suc n))
        then [Exec cmd, Sleep 15, Exec cmd, Sleep 30, Exec cmd]
      else [Exec cmd, Sleep 15, Exec cmd, Sleep 30, Exec cmd, Sleep 45])"
  by (simp add: numeral_3_eq_3)


lemma FindString_json_no_line:
  "\<not> list_ex is_json_line (split_LF output) \<Longrightarrow> FindString_json output = []"
  by (simp add: FindString_json_def list_ex_iff filter_empty_conv split: list.splits)

lemma shouldRetrySpaceshipCommand_Contains:
  "shouldRetrySpaceshipCommand out = Contains out ''503 Service Temporarily Unavailable''"
  by (cases out) (simp_all add: shouldRetrySpaceshipCommand_def)

lemma runSpaceshipCommand_loop_no_response:
  assumes "i \<le> 3" and "createSpaceshipCommand c subCommand opts = Inr cmd"
    and "RunAndReturnTrimmedCombinedOutput env (command cmd) (spawned st) = (output, None)"
    and "FindString_json output = []"
  shows "runSpaceshipCommand_loop env c subCommand opts i cur st =
     (([], Some (NoResponse output)),
      st\<lparr>spawned := Suc (spawned st),
         events := events st @ [Debugf ''$ %s'' [printableCommandArgs cmd], Exec (command cmd)]\<rparr>)"
proof -
  let ?st1 = "st\<lparr>events := events st @ [Debugf ''$ %s'' [printableCommandArgs cmd]]\<rparr>"
  have once: "runSpaceshipCommandOnce env cmd ?st1 =
      (([], Some (NoResponse output)),
       st\<lparr>spawned := Suc (spawned st),
          events := events st @ [Debugf ''$ %s'' [printableCommandArgs cmd], Exec (command cmd)]\<rparr>)"
    using assms(3,4) by (simp add: runSpaceshipCommandOnce_def)
  show ?thesis
    unfolding runSpaceshipCommand_loop_step [OF assms(1,2) once]
    by (simp add: shouldRetrySpaceshipCommand_def)
qed

lemma runSpaceshipCommand_loop_retry_requested:
  assumes "i \<le> 3" and "createSpaceshipCommand c subCommand opts = Inr cmd"
    and "RunAndReturnTrimmedCombinedOutput env (command cmd) (spawned st) = (output, None)"
    and "FindString_json output \<noteq> []"
    and "json_Unmarshal env (FindString_json output) = Inr response"
    and "ShouldRetry response"
  shows "runSpaceshipCommand_loop env c subCommand opts i cur st =
     (([], Some (ProfilesInconsistentError (Error response))),
      st\<lparr>spawned := Suc (spawned st),
         events := events st @ [Debugf ''$ %s'' [printableCommandArgs cmd], Exec (command cmd)]\<rparr>)"
proof -
  let ?st1 = "st\<lparr>events := events st @ [Debugf ''$ %s'' [printableCommandArgs cmd]]\<rparr>"
  have once: "runSpaceshipCommandOnce env cmd ?st1 =
      (([], Some (ProfilesInconsistentError (Error response))),
       st\<lparr>spawned := Suc (spawned st),
          events := events st @ [Debugf ''$ %s'' [printableCommandArgs cmd], Exec (command cmd)]\<rparr>)"
    using assms(3-6) by (simp add: runSpaceshipCommandOnce_def)
  show ?thesis
    unfolding runSpaceshipCommand_loop_step [OF assms(1,2) once]
    by (simp add: shouldRetrySpaceshipCommand_def)
qed

lemma runSpaceshipCommand_loop_clean:
  assumes "i \<le> 3" and "createSpaceshipCommand c subCommand opts = Inr cmd"
    and "RunAndReturnTrimmedCombinedOutput env (command cmd) (spawned st) = (output, None)"
    and "FindString_json output \<noteq> []"
    and "json_Unmarshal env (FindString_json output) = Inr response"
    and "\<not> ShouldRetry response" and "Error response = []"
  shows "runSpaceshipCommand_loop env c subCommand opts i cur st =
     ((FindString_json output, None),
      st\<lparr>spawned := Suc (spawned st),
         events := events st @ [Debugf ''$ %s'' [printableCommandArgs cmd], Exec (command cmd)]\<rparr>)"
proof -
  let ?st1 = "st\<lparr>events := events st @ [Debugf ''$ %s'' [printableCommandArgs cmd]]\<rparr>"
  have once: "runSpaceshipCommandOnce env cmd ?st1 =
      ((FindString_json output, None),
       st\<lparr>spawned := Suc (spawned st),
          events := events st @ [Debugf ''$ %s'' [printableCommandArgs cmd], Exec (command cmd)]\<rparr>)"
    using assms(3-7) by (simp add: runSpaceshipCommandOnce_def)
  show ?thesis
    unfolding runSpaceshipCommand_loop_step [OF assms(1,2) once] by simp
qed

lemma runSpaceshipCommand_loop_exit_status:
  assumes "i \<le> 3" and "createSpaceshipCommand c subCommand opts = Inr cmd"
    and "RunAndReturnTrimmedCombinedOutput env (command cmd) (spawned st) =
           (output, Some (ExitError code))"
  shows "runSpaceshipCommand_loop env c subCommand opts i cur st =
     (if Contains output ''503 Service Temporarily Unavailable'' then
        runSpaceshipCommand_loop env c subCommand opts (i + 1)
          (output, Some (SpaceshipExited code output))
          (st\<lparr>spawned := Suc (spawned st),
             events := events st @
               [Debugf ''$ %s'' [printableCommandArgs cmd], Exec (command cmd),
                Debugf output [], Warnf retry_warning i, Sleep (i * 15)]\<rparr>)
      else
        (([], Some (SpaceshipExited code output)),
         st\<lparr>spawned := Suc (spawned st),
            events := events st @
              [Debugf ''$ %s'' [printableCommandArgs cmd], Exec (command cmd)]\<rparr>))"
proof -
  let ?st1 = "st\<lparr>events := events st @ [Debugf ''$ %s'' [printableCommandArgs cmd]]\<rparr>"
  have once: "runSpaceshipCommandOnce env cmd ?st1 =
      ((output, Some (SpaceshipExited code output)),
       st\<lparr>spawned := Suc (spawned st),
          events := events st @ [Debugf ''$ %s'' [printableCommandArgs cmd], Exec (command cmd)]\<rparr>)"
    using assms(3) by (simp add: runSpaceshipCommandOnce_def)
  show ?thesis
    unfolding runSpaceshipCommand_loop_step [OF assms(1,2) once]
    by (simp add: shouldRetrySpaceshipCommand_Contains)
qed

lemma FindString_json_payloads:
  "FindString_json retry_payload = retry_payload"
  "FindString_json clean_payload = clean_payload"
  by (simp_all add: FindString_json_def retry_payload_def clean_payload_def is_json_line_def LF_def)

lemma payloads_distinct: "retry_payload \<noteq> clean_payload" "retry_payload \<noteq> []" "clean_payload \<noteq> []"
  by (simp_all add: retry_payload_def clean_payload_def)

lemma Contains_unavailable: "Contains unavailable ''503 Service Temporarily Unavailable''"
  by (simp add: unavailable_def HasPrefix_def)

section \<open>The diagnostic extractor\<close>

text \<open>
  Claim C3, as amended. For every input text on which the line scan succeeds (no line
  reaches \<open>MaxScanTokenSize\<close> bytes): when the number of extractable structured records
  equals the number of plain error lines, both counted over the full text, the result is
  exactly the structured records, each rendered as its description alone without a
  suggestion or as description, a space and the suggestion; in every other case the
  result is exactly the plain error lines, unchanged.
\<close>

theorem findXcodebuildErrors_count_then_select:
  assumes "snd (scanner_run out) = None"
  shows "findXcodebuildErrors out =
           (if length (structured_records out) = length (plain_error_lines out)
            then map render_record (structured_records out)
            else plain_error_lines out)"
  using findXcodebuildErrors_scan_ok [OF assms] by (simp add: count_then_select_def)

theorem findXcodebuildErrors_count_then_select_witness:
  "snd (scanner_run sample_log) = None \<and>
   findXcodebuildErrors sample_log =
     (if length (structured_records sample_log) = length (plain_error_lines sample_log)
      then map render_record (structured_records sample_log)
      else plain_error_lines sample_log) \<and>
   findXcodebuildErrors sample_log = [''a b'']"
proof -
  have ok: "snd (scanner_run sample_log) = None"
    by (simp add: sample_log_def extractor_eval)
  have r: "findXcodebuildErrors sample_log = [''a b'']"
    by (simp add: sample_log_def extractor_eval)
  show ?thesis
    using findXcodebuildErrors_count_then_select [OF ok] ok r by simp
qed

text \<open>
  The claim as first stated, for every input text, fails on a text with an oversized
  line: one plain error line and no structured record are counted over the full text,
  and the result is not the plain error line.
\<close>

theorem findXcodebuildErrors_oversized_counterexample:
  "length (structured_records (''error: x'' @ LF # oversized_line)) \<noteq>
     length (plain_error_lines (''error: x'' @ LF # oversized_line)) \<and>
   plain_error_lines (''error: x'' @ LF # oversized_line) = [''error: x''] \<and>
   findXcodebuildErrors (''error: x'' @ LF # oversized_line) = []"
proof -
  have nl: "LF \<notin> set ''error: x''" by (simp add: LF_def)
  have sm: "length ''error: x'' < MaxScanTokenSize" by (simp add: MaxScanTokenSize_def)
  have tl: "text_lines (''error: x'' @ LF # oversized_line) = [''error: x'', oversized_line]"
    unfolding text_lines_line [OF nl] oversized_line_def
    by (simp add: text_lines_replicate LF_def CR_def dropCR_def)
  have np: "\<not> HasPrefix oversized_line ''error: ''" "\<not> HasPrefix oversized_line ''Error ''"
    unfolding oversized_line_def by (simp_all add: replicate_not_HasPrefix)
  have hp: "HasPrefix ''error: x'' ''error: ''" "\<not> HasPrefix ''error: x'' ''Error ''"
    by (simp_all add: HasPrefix_def)
  have p: "plain_error_lines (''error: x'' @ LF # oversized_line) = [''error: x'']"
    unfolding plain_error_lines_def tl by (simp add: hp np)
  have s: "structured_records (''error: x'' @ LF # oversized_line) = []"
    unfolding structured_records_def tl by (simp add: hp np List.map_filter_simps)
  have "snd (scanner_run (''error: x'' @ LF # oversized_line)) \<noteq> None"
    unfolding scanner_run_line [OF nl sm] by (simp add: scanner_run_oversized_line)
  then have f: "findXcodebuildErrors (''error: x'' @ LF # oversized_line) = []"
    by (rule findXcodebuildErrors_scan_failed)
  show ?thesis unfolding p s f by simp
qed

text \<open>
  Claim C5, as amended. For every input text on which the line scan fails, the extractor
  returns no records and hands no error to its caller: its only result is the list of
  records. For every input text with no recognizable error line it returns the empty
  list.
\<close>

theorem findXcodebuildErrors_empty_results:
  "(snd (scanner_run out) \<noteq> None \<longrightarrow> findXcodebuildErrors out = []) \<and>
   (\<not> list_ex recognizable (text_lines out) \<longrightarrow> findXcodebuildErrors out = [])"
proof (intro conjI impI)
  assume "snd (scanner_run out) \<noteq> None"
  then show "findXcodebuildErrors out = []" by (rule findXcodebuildErrors_scan_failed)
next
  assume unrec: "\<not> list_ex recognizable (text_lines out)"
  show "findXcodebuildErrors out = []"
  proof (cases "snd (scanner_run out)")
    case (Some e)
    then show ?thesis by (simp add: findXcodebuildErrors_scan_failed)
  next
    case None
    then have "fst (scanner_run out) = text_lines out" by (rule scanner_run_text_lines)
    with None obtain sr: "scanner_run out = (text_lines out, None)"
      by (cases "scanner_run out") auto
    show ?thesis
      unfolding findXcodebuildErrors_def sr
      by (simp add: foldl_scan_body_unrecognizable [OF unrec])
  qed
qed

theorem findXcodebuildErrors_empty_results_witness:
  "snd (scanner_run oversized_line) \<noteq> None \<and> findXcodebuildErrors oversized_line = [] \<and>
   \<not> list_ex recognizable (text_lines ''Build ok'') \<and> findXcodebuildErrors ''Build ok'' = []"
proof -
  have a: "snd (scanner_run oversized_line) \<noteq> None"
    by (simp add: scanner_run_oversized_line)
  have "text_lines ''Build ok'' = [''Build ok'']"
    by (simp add: text_lines_def dropCR_def LF_def CR_def)
  then have b: "\<not> list_ex recognizable (text_lines ''Build ok'')"
    by (simp add: recognizable_def HasPrefix_def)
  show ?thesis
    using findXcodebuildErrors_empty_results [of oversized_line]
      findXcodebuildErrors_empty_results [of "''Build ok''"] a b by simp
qed

text \<open>
  The scan of an oversized line fails, the scan of the empty text does not, and the
  caller of the extractor receives the same value in both cases.
\<close>

theorem findXcodebuildErrors_scan_error_counterexample:
  "snd (scanner_run oversized_line) = Some ErrTooLong \<and> snd (scanner_run []) = None \<and>
   findXcodebuildErrors oversized_line = findXcodebuildErrors []"
  by (simp add: scanner_run_oversized_line findXcodebuildErrors_def scanner_run.simps [of "[]"])




section \<open>The bridge\<close>

text \<open>
  Claim C1, as amended. For every attempt (an iteration \<open>i \<le> 3\<close> of the loop, in any
  world) whose process exits successfully with a response line that decodes to a payload
  with \<^verbatim>\<open>retry\<close> set, the bridge returns at once the typed inconsistent-profiles error
  that wraps the payload's error field: the attempt has logged the command and run the
  process, and the bridge makes no sleep and no further attempt, whatever \<open>i\<close> is.
\<close>

theorem runSpaceshipCommand_retry_flag_returns_typed_error:
  assumes "i \<le> 3" and "createSpaceshipCommand c subCommand opts = Inr cmd"
    and "RunAndReturnTrimmedCombinedOutput env (command cmd) (spawned st) = (output, None)"
    and "FindString_json output \<noteq> []"
    and "json_Unmarshal env (FindString_json output) = Inr response"
    and "ShouldRetry response"
  shows "runSpaceshipCommand_loop env c subCommand opts i cur st =
     (([], Some (ProfilesInconsistentError (Error response))),
      st\<lparr>spawned := Suc (spawned st),
         events := events st @ [Debugf ''$ %s'' [printableCommandArgs cmd], Exec (command cmd)]\<rparr>)"
  using assms by (rule runSpaceshipCommand_loop_retry_requested)

theorem runSpaceshipCommand_retry_flag_returns_typed_error_witness:
  "(2::nat) \<le> 3 \<and>
   createSpaceshipCommand sample_client ''list_devices'' [] = Inr sample_cmd \<and>
   RunAndReturnTrimmedCombinedOutput retry_then_clean_env (command sample_cmd) (spawned world0) =
     (retry_payload, None) \<and>
   FindString_json retry_payload \<noteq> [] \<and>
   json_Unmarshal retry_then_clean_env (FindString_json retry_payload) =
     Inr \<lparr>Error = ''x'', ShouldRetry = True\<rparr> \<and>
   ShouldRetry \<lparr>Error = ''x'', ShouldRetry = True\<rparr> \<and>
   runSpaceshipCommand_loop retry_then_clean_env sample_client ''list_devices'' [] 2
       (unavailable, Some (SpaceshipExited 1 unavailable)) world0 =
     (([], Some (ProfilesInconsistentError ''x'')),
      \<lparr>spawned = 1,
       events = [Debugf ''$ %s'' [''main.rb --subcommand list_devices''], Exec (command sample_cmd)]\<rparr>)"
proof -
  have h1: "(2::nat) \<le> 3" by simp
  have h3: "RunAndReturnTrimmedCombinedOutput retry_then_clean_env (command sample_cmd)
      (spawned world0) = (retry_payload, None)"
    by (simp add: retry_then_clean_env_def world0_def)
  have h4: "FindString_json retry_payload \<noteq> []"
    by (simp add: FindString_json_payloads payloads_distinct)
  have h5: "json_Unmarshal retry_then_clean_env (FindString_json retry_payload) =
      Inr \<lparr>Error = ''x'', ShouldRetry = True\<rparr>"
    by (simp add: FindString_json_payloads retry_then_clean_env_def sample_Unmarshal_def)
  have h6: "ShouldRetry \<lparr>Error = ''x'', ShouldRetry = True\<rparr>" by simp
  show ?thesis
    using runSpaceshipCommand_retry_flag_returns_typed_error
      [OF h1 createSpaceshipCommand_sample h3 h4 h5 h6,
        of "(unavailable, Some (SpaceshipExited 1 unavailable))"]
      h3 h4 h5 createSpaceshipCommand_sample
    by (simp add: world0_def sample_cmd_def)
qed

text \<open>
  The claim as first stated fails on the portal that asks for a retry on the attempts 1
  and 2 and answers cleanly on the attempt 3: the call ends at the first attempt with the
  typed error, after one process and no sleep.
\<close>

theorem runSpaceshipCommand_retry_flag_counterexample:
  "runSpaceshipCommand retry_then_clean_env sample_client ''list_devices'' [] world0 =
     (([], Some (ProfilesInconsistentError ''x'')),
      \<lparr>spawned = 1,
       events = [Debugf ''$ %s'' [''main.rb --subcommand list_devices''], Exec (command sample_cmd)]\<rparr>)"
proof -
  have h1: "(1::nat) \<le> 3" by simp
  have h3: "RunAndReturnTrimmedCombinedOutput retry_then_clean_env (command sample_cmd)
      (spawned world0) = (retry_payload, None)"
    by (simp add: retry_then_clean_env_def world0_def)
  have h4: "FindString_json retry_payload \<noteq> []"
    by (simp add: FindString_json_payloads payloads_distinct)
  have h5: "json_Unmarshal retry_then_clean_env (FindString_json retry_payload) =
      Inr \<lparr>Error = ''x'', ShouldRetry = True\<rparr>"
    by (simp add: FindString_json_payloads retry_then_clean_env_def sample_Unmarshal_def)
  have h6: "ShouldRetry \<lparr>Error = ''x'', ShouldRetry = True\<rparr>" by simp
  show ?thesis
    unfolding runSpaceshipCommand_def
      runSpaceshipCommand_loop_retry_requested [OF h1 createSpaceshipCommand_sample h3 h4 h5 h6]
    by (simp add: world0_def sample_cmd_def)
qed

text \<open>
  Claim C7. For every attempt whose process exits successfully and whose output has no
  line that starts with an opening brace and ends with a closing one, the bridge returns
  the error "output does not contain response" at once: the attempt has logged the
  command and run the process, and no sleep and no further process follow.
\<close>

theorem runSpaceshipCommand_no_response_not_retried:
  assumes "i \<le> 3" and "createSpaceshipCommand c subCommand opts = Inr cmd"
    and "RunAndReturnTrimmedCombinedOutput env (command cmd) (spawned st) = (output, None)"
    and "\<not> list_ex is_json_line (split_LF output)"
  shows "runSpaceshipCommand_loop env c subCommand opts i cur st =
     (([], Some (NoResponse output)),
      st\<lparr>spawned := Suc (spawned st),
         events := events st @ [Debugf ''$ %s'' [printableCommandArgs cmd], Exec (command cmd)]\<rparr>)"
  using assms(1-3) FindString_json_no_line [OF assms(4)]
  by (rule runSpaceshipCommand_loop_no_response)

theorem runSpaceshipCommand_no_response_not_retried_witness:
  "(1::nat) \<le> 3 \<and>
   createSpaceshipCommand sample_client ''list_devices'' [] = Inr sample_cmd \<and>
   RunAndReturnTrimmedCombinedOutput no_response_env (command sample_cmd) (spawned world0) =
     (''Fetching certificates'', None) \<and>
   \<not> list_ex is_json_line (split_LF ''Fetching certificates'') \<and>
   runSpaceshipCommand no_response_env sample_client ''list_devices'' [] world0 =
     (([], Some (NoResponse ''Fetching certificates'')),
      \<lparr>spawned = 1,
       events = [Debugf ''$ %s'' [''main.rb --subcommand list_devices''], Exec (command sample_cmd)]\<rparr>)"
proof -
  have h1: "(1::nat) \<le> 3" by simp
  have h3: "RunAndReturnTrimmedCombinedOutput no_response_env (command sample_cmd)
      (spawned world0) = (''Fetching certificates'', None)"
    by (simp add: no_response_env_def)
  have h4: "\<not> list_ex is_json_line (split_LF ''Fetching certificates'')"
    by (simp add: is_json_line_def LF_def)
  show ?thesis
    using runSpaceshipCommand_no_response_not_retried
      [OF h1 createSpaceshipCommand_sample h3 h4, of "([], None)"]
      h3 h4 createSpaceshipCommand_sample
    by (simp add: runSpaceshipCommand_def world0_def sample_cmd_def)
qed

text \<open>
  Claim C4, as amended. For every attempt whose process fails with an exit status: when
  the captured output does not contain \<^verbatim>\<open>503 Service Temporarily Unavailable\<close>, the bridge
  returns at once the error "spaceship command exited with status ..., output: ...",
  with no sleep and no further process; when the output contains that text, the bridge
  logs the output and a warning, sleeps \<open>i * 15\<close> seconds and goes on with the iteration
  \<open>i + 1\<close> of the loop, holding that error as the current one.
\<close>

theorem runSpaceshipCommand_exit_status:
  assumes "i \<le> 3" and "createSpaceshipCommand c subCommand opts = Inr cmd"
    and "RunAndReturnTrimmedCombinedOutput env (command cmd) (spawned st) =
           (output, Some (ExitError code))"
  shows "runSpaceshipCommand_loop env c subCommand opts i cur st =
     (if Contains output ''503 Service Temporarily Unavailable'' then
        runSpaceshipCommand_loop env c subCommand opts (i + 1)
          (output, Some (SpaceshipExited code output))
          (st\<lparr>spawned := Suc (spawned st),
             events := events st @
               [Debugf ''$ %s'' [printableCommandArgs cmd], Exec (command cmd),
                Debugf output [], Warnf retry_warning i, Sleep (i * 15)]\<rparr>)
      else
        (([], Some (SpaceshipExited code output)),
         st\<lparr>spawned := Suc (spawned st),
            events := events st @
              [Debugf ''$ %s'' [printableCommandArgs cmd], Exec (command cmd)]\<rparr>))"
  using assms by (rule runSpaceshipCommand_loop_exit_status)

theorem runSpaceshipCommand_exit_status_witness:
  "(1::nat) \<le> 3 \<and>
   createSpaceshipCommand sample_client ''list_devices'' [] = Inr sample_cmd \<and>
   RunAndReturnTrimmedCombinedOutput crashing_env (command sample_cmd) (spawned world0) =
     (''main.rb:1: syntax error'', Some (ExitError 1)) \<and>
   \<not> Contains ''main.rb:1: syntax error'' ''503 Service Temporarily Unavailable'' \<and>
   runSpaceshipCommand crashing_env sample_client ''list_devices'' [] world0 =
     (([], Some (SpaceshipExited 1 ''main.rb:1: syntax error'')),
      \<lparr>spawned = 1,
       events = [Debugf ''$ %s'' [''main.rb --subcommand list_devices''], Exec (command sample_cmd)]\<rparr>)"
proof -
  have h1: "(1::nat) \<le> 3" by simp
  have h3: "RunAndReturnTrimmedCombinedOutput crashing_env (command sample_cmd)
      (spawned world0) = (''main.rb:1: syntax error'', Some (ExitError 1))"
    by (simp add: crashing_env_def)
  have h4: "\<not> Contains ''main.rb:1: syntax error'' ''503 Service Temporarily Unavailable''"
    by (simp add: HasPrefix_def)
  show ?thesis
    using runSpaceshipCommand_exit_status
      [OF h1 createSpaceshipCommand_sample h3, of "([], None)"]
      h3 h4 createSpaceshipCommand_sample
    by (simp add: runSpaceshipCommand_def world0_def sample_cmd_def)
qed

text \<open>
  The claim as first stated fails when the first process exits with status 1 on a 503
  page and the second answers cleanly: the bridge sleeps 15 seconds, runs a second
  process and returns its payload.
\<close>

theorem runSpaceshipCommand_exit_status_counterexample:
  "RunAndReturnTrimmedCombinedOutput unavailable_then_clean_env (command sample_cmd) 0 =
     (unavailable, Some (ExitError 1)) \<and>
   runSpaceshipCommand unavailable_then_clean_env sample_client ''list_devices'' [] world0 =
     ((clean_payload, None),
      \<lparr>spawned = 2,
       events = [Debugf ''$ %s'' [''main.rb --subcommand list_devices''], Exec (command sample_cmd),
                 Debugf unavailable [], Warnf retry_warning 1, Sleep 15,
                 Debugf ''$ %s'' [''main.rb --subcommand list_devices''], Exec (command sample_cmd)]\<rparr>)"
proof -
  have h1: "(1::nat) \<le> 3" "(1::nat) + 1 \<le> 3" by simp_all
  have h3: "RunAndReturnTrimmedCombinedOutput unavailable_then_clean_env (command sample_cmd)
      (spawned world0) = (unavailable, Some (ExitError 1))"
    by (simp add: unavailable_then_clean_env_def world0_def)
  let ?st = "world0\<lparr>spawned := Suc (spawned world0),
             events := events world0 @
               [Debugf ''$ %s'' [printableCommandArgs sample_cmd], Exec (command sample_cmd),
                Debugf unavailable [], Warnf retry_warning 1, Sleep (1 * 15)]\<rparr>"
  have g3: "RunAndReturnTrimmedCombinedOutput unavailable_then_clean_env (command sample_cmd)
      (spawned ?st) = (clean_payload, None)"
    by (simp add: unavailable_then_clean_env_def world0_def)
  have g4: "FindString_json clean_payload \<noteq> []"
    by (simp add: FindString_json_payloads payloads_distinct)
  have g5: "json_Unmarshal unavailable_then_clean_env (FindString_json clean_payload) =
      Inr \<lparr>Error = [], ShouldRetry = False\<rparr>"
    using payloads_distinct
    by (simp add: FindString_json_payloads unavailable_then_clean_env_def sample_Unmarshal_def)
  have g6: "\<not> ShouldRetry \<lparr>Error = [], ShouldRetry = False\<rparr>"
    "Error \<lparr>Error = [], ShouldRetry = False\<rparr> = []" by simp_all
  have "runSpaceshipCommand unavailable_then_clean_env sample_client ''list_devices'' [] world0 =
      runSpaceshipCommand_loop unavailable_then_clean_env sample_client ''list_devices'' [] (1 + 1)
        (unavailable, Some (SpaceshipExited 1 unavailable)) ?st"
    unfolding runSpaceshipCommand_def
      runSpaceshipCommand_loop_exit_status [OF h1(1) createSpaceshipCommand_sample h3]
    using Contains_unavailable by simp
  also have "\<dots> = ((FindString_json clean_payload, None),
      ?st\<lparr>spawned := Suc (spawned ?st),
         events := events ?st @
           [Debugf ''$ %s'' [printableCommandArgs sample_cmd], Exec (command sample_cmd)]\<rparr>)"
    by (rule runSpaceshipCommand_loop_clean [OF h1(2) createSpaceshipCommand_sample g3 g4 g5 g6])
  finally show ?thesis
    using h3 by (simp add: FindString_json_payloads world0_def sample_cmd_def)
qed


lemma process_retryable_samples:
  "\<not> process_retryable retry_then_clean_env cmd n"
  "process_retryable always_unavailable_env cmd n"
  "process_retryable unavailable_then_clean_env cmd n = (n = 0)"
  using Contains_unavailable
  by (simp_all add: process_retryable_def retry_then_clean_env_def always_unavailable_env_def
      unavailable_then_clean_env_def shouldRetrySpaceshipCommand_Contains)

text \<open>
  Claim C6, as amended. In every invocation of the bridge the attempts are made in order
  and there are at least one and at most three of them; up to the last process run the
  effects are exactly run, sleep 15, run, sleep 30, run, cut after the last run, so that
  the attempt \<open>j + 1\<close> comes right after a sleep of \<open>j * 15\<close> seconds and no process runs
  after the last of them. A further attempt is made only after a process that failed at
  the process level with the transient-service text in its output; an invocation that
  stops before the third attempt stops at a process that is not such a failure. The
  retry flag of a decoded payload starts no sleep and no attempt.
\<close>

theorem runSpaceshipCommand_schedule:
  assumes "createSpaceshipCommand c subCommand opts = Inr cmd"
    and "st' = snd (runSpaceshipCommand env c subCommand opts st)"
    and "k = spawned st' - spawned st"
  shows "1 \<le> k \<and> k \<le> 3 \<and>
     take (2 * k - 1) (new_effects st st') = backoff_schedule (command cmd) k \<and>
     \<not> list_ex is_Exec (drop (2 * k - 1) (new_effects st st')) \<and>
     (\<forall>j<k - 1. process_retryable env (command cmd) (spawned st + j)) \<and>
     (k < 3 \<longrightarrow> \<not> process_retryable env (command cmd) (spawned st + (k - 1)))"
proof -
  note e = runSpaceshipCommand_effects [OF assms(1), of st env, unfolded attempts_from_3, folded assms(2)]
  let ?r = "\<lambda>j. process_retryable env (command cmd) (spawned st + j)"
  consider (one) "\<not> ?r 0" | (two) "?r 0" "\<not> ?r 1" | (three) "?r 0" "?r 1" "\<not> ?r 2"
    | (all) "?r 0" "?r 1" "?r 2"
    by blast
  then show ?thesis
  proof cases
    case one
    with e have "new_effects st st' = [Exec (command cmd)]" and "k = 1"
      by (simp_all add: assms(3))
    with one show ?thesis by simp
  next
    case two
    with e have "new_effects st st' = [Exec (command cmd), Sleep 15, Exec (command cmd)]"
      and "k = 2"
      by (simp_all add: assms(3))
    with two show ?thesis by (simp add: numeral_2_eq_2)
  next
    case three
    with e have "new_effects st st' =
        [Exec (command cmd), Sleep 15, Exec (command cmd), Sleep 30, Exec (command cmd)]"
      and "k = 3"
      by (simp_all add: assms(3) numeral_2_eq_2)
    with three show ?thesis by (simp add: numeral_3_eq_3 numeral_2_eq_2 less_Suc_eq)
  next
    case all
    with e have "new_effects st st' =
        [Exec (command cmd), Sleep 15, Exec (command cmd), Sleep 30, Exec (command cmd), Sleep 45]"
      and "k = 3"
      by (simp_all add: assms(3) numeral_2_eq_2)
    with all show ?thesis by (simp add: numeral_3_eq_3 numeral_2_eq_2 less_Suc_eq)
  qed
qed


theorem runSpaceshipCommand_schedule_witness:
  "createSpaceshipCommand sample_client ''list_devices'' [] = Inr sample_cmd \<and>
   spawned (snd (runSpaceshipCommand unavailable_then_clean_env sample_client ''list_devices'' []
      world0)) - spawned world0 = 2 \<and>
   new_effects world0
     (snd (runSpaceshipCommand unavailable_then_clean_env sample_client ''list_devices'' [] world0)) =
     [Exec (command sample_cmd), Sleep 15, Exec (command sample_cmd)] \<and>
   backoff_schedule (command sample_cmd) 2 =
     [Exec (command sample_cmd), Sleep 15, Exec (command sample_cmd)] \<and>
   process_retryable unavailable_then_clean_env (command sample_cmd) (spawned world0 + 0) \<and>
   (2::nat) < 3 \<and>
   \<not> process_retryable unavailable_then_clean_env (command sample_cmd) (spawned world0 + (2 - 1))"
proof -
  let ?st' = "snd (runSpaceshipCommand unavailable_then_clean_env sample_client ''list_devices'' []
      world0)"
  note e = runSpaceshipCommand_effects [OF createSpaceshipCommand_sample,
      of world0 unavailable_then_clean_env, unfolded attempts_from_3]
  have k: "spawned ?st' - spawned world0 = 2"
    using e by (simp add: process_retryable_samples world0_def)
  have n: "new_effects world0 ?st' = [Exec (command sample_cmd), Sleep 15, Exec (command sample_cmd)]"
    using e by (simp add: process_retryable_samples world0_def)
  show ?thesis
    using runSpaceshipCommand_schedule [OF createSpaceshipCommand_sample refl k [symmetric]]
      createSpaceshipCommand_sample k n
    by (simp add: numeral_2_eq_2)
qed

text \<open>
  The claim as first stated fails twice. A payload with the retry flag set starts no
  backoff and no second attempt: the effects of the invocation are one process. And when
  every process fails on a 503 page, a sleep of 45 seconds follows the third and last
  attempt.
\<close>

theorem runSpaceshipCommand_schedule_counterexample:
  "new_effects world0
     (snd (runSpaceshipCommand retry_then_clean_env sample_client ''list_devices'' [] world0)) =
     [Exec (command sample_cmd)] \<and>
   new_effects world0
     (snd (runSpaceshipCommand always_unavailable_env sample_client ''list_devices'' [] world0)) =
     [Exec (command sample_cmd), Sleep 15, Exec (command sample_cmd), Sleep 30,
      Exec (command sample_cmd), Sleep 45]"
  using runSpaceshipCommand_effects [OF createSpaceshipCommand_sample,
      of world0 retry_then_clean_env, unfolded attempts_from_3]
    runSpaceshipCommand_effects [OF createSpaceshipCommand_sample,
      of world0 always_unavailable_env, unfolded attempts_from_3]
  by (simp add: process_retryable_samples)

text \<open>
  Claim C9. The printable form of the command is the join of \<^verbatim>\<open>main.rb\<close>,
  \<^verbatim>\<open>--subcommand\<close>, the subcommand and the options: it is built before the
  authentication parameters are appended, so it is the same for any two clients, whatever
  their user name, password, session and team are. The command that is executed carries
  these arguments followed by the user name, the password, the session in base64 and the
  team identifier.
\<close>

theorem createSpaceshipCommand_printable_has_no_secrets:
  "\<exists>cmd. createSpaceshipCommand c subCommand opts = Inr cmd \<and>
     printableCommandArgs cmd = Join ([''main.rb'', ''--subcommand'', subCommand] @ opts) '' '' \<and>
     cmd_args (command cmd) =
       [''main.rb'', ''--subcommand'', subCommand] @ opts @
       [''--username'', Username (authConfig c), ''--password'', Password (authConfig c),
        ''--session'', EncodeToString (Session (authConfig c)), ''--team-id'', teamID c] \<and>
     (\<forall>c'. \<exists>cmd'. createSpaceshipCommand c' subCommand opts = Inr cmd' \<and>
        printableCommandArgs cmd' = printableCommandArgs cmd)"
  by (simp add: createSpaceshipCommand_def)

theorem createSpaceshipCommand_printable_has_no_secrets_witness:
  "createSpaceshipCommand sample_client ''list_devices'' [''--id'', ''7''] =
     Inr \<lparr>command =
           \<lparr>cmd_name = ''ruby'',
            cmd_args = [''main.rb'', ''--subcommand'', ''list_devices'', ''--id'', ''7'',
                        ''--username'', ''user'', ''--password'', ''secret'',
                        ''--session'', ''Zm9vYmFy'', ''--team-id'', ''TEAM''],
            bundler_version = [], cmd_dir = ''/tmp/spaceship''\<rparr>,
          printableCommandArgs = ''main.rb --subcommand list_devices --id 7''\<rparr> \<and>
   (\<exists>cmd'. createSpaceshipCommand
        (sample_client\<lparr>authConfig := \<lparr>Username = ''u2'', Password = ''p2'', Session = ''s2''\<rparr>,
                       teamID := ''T2''\<rparr>) ''list_devices'' [''--id'', ''7''] = Inr cmd' \<and>
      printableCommandArgs cmd' = ''main.rb --subcommand list_devices --id 7'')"
proof -
  have v: "createSpaceshipCommand sample_client ''list_devices'' [''--id'', ''7''] =
     Inr \<lparr>command =
           \<lparr>cmd_name = ''ruby'',
            cmd_args = [''main.rb'', ''--subcommand'', ''list_devices'', ''--id'', ''7'',
                        ''--username'', ''user'', ''--password'', ''secret'',
                        ''--session'', ''Zm9vYmFy'', ''--team-id'', ''TEAM''],
            bundler_version = [], cmd_dir = ''/tmp/spaceship''\<rparr>,
          printableCommandArgs = ''main.rb --subcommand list_devices --id 7''\<rparr>"
    by (simp add: createSpaceshipCommand_def sample_client_def encodeStd_def b64_def)
  show ?thesis
    using createSpaceshipCommand_printable_has_no_secrets
      [of sample_client "''list_devices''" "[''--id'', ''7'']"] v
    by auto
qed


section \<open>Secondary log discovery\<close>

lemma first_log_path_first_match:
  assumes "\<not> list_ex matches_log_pattern pre" and "FindStringSubmatch_logs line = [whole, path]"
  shows "first_log_path (pre @ line # post) = Some path"
  using assms by (induction pre) (simp_all add: matches_log_pattern_def Let_def)

lemma first_log_path_no_match:
  "\<not> list_ex matches_log_pattern ls \<Longrightarrow> first_log_path ls = None"
  by (induction ls) (simp_all add: matches_log_pattern_def Let_def)

lemma HasPrefix_logs_marker_hd: "HasPrefix s logs_marker \<Longrightarrow> s \<noteq> [] \<and> hd s = CHR ''I''"
  unfolding logs_marker_def by (cases s) (simp_all add: HasPrefix_def)

lemma FindStringSubmatch_logs_replicate:
  "FindStringSubmatch_logs (replicate n (CHR ''a'')) = []"
proof (induction n)
  case 0
  show ?case by simp
next
  case (Suc n)
  have "\<not> HasPrefix (CHR ''a'' # replicate n (CHR ''a'')) logs_marker"
    using HasPrefix_logs_marker_hd [of "CHR ''a'' # replicate n (CHR ''a'')"] by auto
  with Suc show ?case by simp
qed

text \<open>
  Claim C8, as amended. For every captured output, the discovery returns the path
  captured on the first scanned line that matches the pattern, with no error, whatever
  the later lines hold. When no scanned line matches, it returns the empty path together
  with the outcome of the scan: no error when the scan succeeds, the scan error when the
  scan stops at a line of \<open>MaxScanTokenSize\<close> bytes or more.
\<close>

theorem findIDEDistrubutionLogsPath_first_match:
  "(fst (scanner_run output) = pre @ line # post \<and> \<not> list_ex matches_log_pattern pre \<and>
      FindStringSubmatch_logs line = [whole, path]
        \<longrightarrow> findIDEDistrubutionLogsPath output = (path, None)) \<and>
   (\<not> list_ex matches_log_pattern (fst (scanner_run output))
        \<longrightarrow> findIDEDistrubutionLogsPath output = ([], snd (scanner_run output)))"
proof (intro conjI impI)
  assume "fst (scanner_run output) = pre @ line # post \<and> \<not> list_ex matches_log_pattern pre \<and>
      FindStringSubmatch_logs line = [whole, path]"
  then show "findIDEDistrubutionLogsPath output = (path, None)"
    using first_log_path_first_match [of pre line whole path post]
    by (auto simp: findIDEDistrubutionLogsPath_def split: prod.splits)
next
  assume "\<not> list_ex matches_log_pattern (fst (scanner_run output))"
  then show "findIDEDistrubutionLogsPath output = ([], snd (scanner_run output))"
    using first_log_path_no_match [of "fst (scanner_run output)"]
    by (auto simp: findIDEDistrubutionLogsPath_def split: prod.splits option.splits)
qed

lemma scanner_run_export_log:
  "scanner_run export_log =
     ([''Exporting'', ''12:00 '' @ logs_marker @ ''/tmp/logs/xyz'' @ [QUOTE] @ ''.'',
       logs_marker @ ''/other'' @ [QUOTE]], None)"
  by (simp add: export_log_def logs_marker_def scanner_run.simps LF_def CR_def QUOTE_def
      MaxScanTokenSize_def dropCR_def)

lemma FindStringSubmatch_logs_samples:
  "FindStringSubmatch_logs ''Exporting'' = []"
  "FindStringSubmatch_logs (''12:00 '' @ logs_marker @ ''/tmp/logs/xyz'' @ [QUOTE] @ ''.'') =
     [logs_marker @ ''/tmp/logs/xyz'' @ [QUOTE], ''/tmp/logs/xyz'']"
  by (simp_all add: logs_marker_def HasPrefix_def QUOTE_def LF_def before_last_def)

theorem findIDEDistrubutionLogsPath_first_match_witness:
  "fst (scanner_run export_log) =
     [''Exporting''] @ (''12:00 '' @ logs_marker @ ''/tmp/logs/xyz'' @ [QUOTE] @ ''.'') #
     [logs_marker @ ''/other'' @ [QUOTE]] \<and>
   \<not> list_ex matches_log_pattern [''Exporting''] \<and>
   FindStringSubmatch_logs (''12:00 '' @ logs_marker @ ''/tmp/logs/xyz'' @ [QUOTE] @ ''.'') =
     [logs_marker @ ''/tmp/logs/xyz'' @ [QUOTE], ''/tmp/logs/xyz''] \<and>
   findIDEDistrubutionLogsPath export_log = (''/tmp/logs/xyz'', None) \<and>
   \<not> list_ex matches_log_pattern (fst (scanner_run ''Exporting'')) \<and>
   findIDEDistrubutionLogsPath ''Exporting'' = ([], None)"
proof -
  have a: "fst (scanner_run export_log) =
     [''Exporting''] @ (''12:00 '' @ logs_marker @ ''/tmp/logs/xyz'' @ [QUOTE] @ ''.'') #
     [logs_marker @ ''/other'' @ [QUOTE]]"
    by (simp add: scanner_run_export_log)
  have "length (FindStringSubmatch_logs ''Exporting'') \<noteq> 2"
    by (simp only: FindStringSubmatch_logs_samples) simp
  then have b: "\<not> list_ex matches_log_pattern [''Exporting'']"
    by (simp add: matches_log_pattern_def del: FindStringSubmatch_logs.simps)
  have s: "scanner_run ''Exporting'' = ([''Exporting''], None)"
    by (simp add: scanner_run.simps LF_def CR_def MaxScanTokenSize_def dropCR_def)
  have c: "\<not> list_ex matches_log_pattern (fst (scanner_run ''Exporting''))"
    unfolding s using b by simp
  show ?thesis
    using findIDEDistrubutionLogsPath_first_match [of export_log "[''Exporting'']"
        "''12:00 '' @ logs_marker @ ''/tmp/logs/xyz'' @ [QUOTE] @ ''.''"
        "[logs_marker @ ''/other'' @ [QUOTE]]" "logs_marker @ ''/tmp/logs/xyz'' @ [QUOTE]"
        "''/tmp/logs/xyz''"]
      findIDEDistrubutionLogsPath_first_match [of "''Exporting''"]
      a b c s FindStringSubmatch_logs_samples(2)
    by (simp del: FindStringSubmatch_logs.simps)
qed

text \<open>
  The claim as first stated fails on an output made of one oversized line: no line of
  the text matches the pattern, and the discovery returns the scan error.
\<close>

theorem findIDEDistrubutionLogsPath_oversized_counterexample:
  "\<not> list_ex matches_log_pattern (text_lines oversized_line) \<and>
   findIDEDistrubutionLogsPath oversized_line = ([], Some ErrTooLong)"
proof -
  have "text_lines oversized_line = [oversized_line]"
    unfolding oversized_line_def by (rule text_lines_replicate) (simp_all add: LF_def CR_def)
  moreover have "FindStringSubmatch_logs oversized_line = []"
    unfolding oversized_line_def by (rule FindStringSubmatch_logs_replicate)
  ultimately show ?thesis
    by (simp add: matches_log_pattern_def findIDEDistrubutionLogsPath_def
        scanner_run_oversized_line)
qed

section \<open>The archive step\<close>

text \<open>
  Claim C2. Let the first run of the archive command give \<open>first\<close>. When it failed, the
  cache path is not empty and its output contains the cache-invalidity marker, the
  cache path is deleted; if the deletion succeeds the command is run once more and the
  result of that second run is returned as it is, and if the deletion fails the first
  output is returned with the error "failed to remove invalid Swift package caches" and
  the command is not run again. In every other case the command is run once and \<open>first\<close>
  is returned unchanged.
\<close>

theorem runArchiveCommandWithRetry_cases:
  assumes "first = (if useXcpretty then xcprettyCmd_Run env (runs st)
                    else archiveRootCmd_Run env (runs st))"
    and "second = (if useXcpretty then xcprettyCmd_Run env (Suc (runs st))
                   else archiveRootCmd_Run env (Suc (runs st)))"
    and "run = (if useXcpretty then Run_xcpretty else Run_xcodebuild)"
    and "res = runArchiveCommandWithRetry env useXcpretty swiftPackagesPath st"
  shows
   "(snd first \<noteq> None \<and> swiftPackagesPath \<noteq> [] \<and>
     Contains (fst first) (SwiftPackagesStateInvalid env) \<and>
     os_RemoveAll env swiftPackagesPath = None
       \<longrightarrow> new_actions st (snd res) = [run, RemoveAll swiftPackagesPath, run] \<and>
           fst res = second) \<and>
    (snd first \<noteq> None \<and> swiftPackagesPath \<noteq> [] \<and>
     Contains (fst first) (SwiftPackagesStateInvalid env) \<and>
     os_RemoveAll env swiftPackagesPath = Some rmErr
       \<longrightarrow> new_actions st (snd res) = [run, RemoveAll swiftPackagesPath] \<and>
           fst res = (fst first, Some (RemoveCachesFailed rmErr))) \<and>
    (snd first = None \<or> swiftPackagesPath = [] \<or>
     \<not> Contains (fst first) (SwiftPackagesStateInvalid env)
       \<longrightarrow> new_actions st (snd res) = [run] \<and> fst res = first)"
  unfolding assms
  by (cases useXcpretty)
     (auto simp: runArchiveCommandWithRetry_def runArchiveCommand_def new_actions_def
       split: prod.splits option.splits)


theorem runArchiveCommandWithRetry_cases_witness:
  "snd (xcprettyCmd_Run cache_invalid_env (runs archive_world0)) \<noteq> None \<and>
   ''/cache'' \<noteq> [] \<and>
   Contains (fst (xcprettyCmd_Run cache_invalid_env (runs archive_world0)))
     (SwiftPackagesStateInvalid cache_invalid_env) \<and>
   os_RemoveAll cache_invalid_env ''/cache'' = None \<and>
   new_actions archive_world0
     (snd (runArchiveCommandWithRetry cache_invalid_env True ''/cache'' archive_world0)) =
     [Run_xcpretty, RemoveAll ''/cache'', Run_xcpretty] \<and>
   fst (runArchiveCommandWithRetry cache_invalid_env True ''/cache'' archive_world0) =
     (''ARCHIVE SUCCEEDED'', None) \<and>
   new_actions archive_world0
     (snd (runArchiveCommandWithRetry cache_invalid_env False ''/cache'' archive_world0)) =
     [Run_xcodebuild, RemoveAll ''/cache'', Run_xcodebuild] \<and>
   fst (runArchiveCommandWithRetry cache_invalid_env False ''/cache'' archive_world0) =
     (''ARCHIVE FAILED'', Some (ExitError 65)) \<and>
   os_RemoveAll locked_cache_env ''/cache'' = Some (OtherError ''permission denied'') \<and>
   new_actions archive_world0
     (snd (runArchiveCommandWithRetry locked_cache_env True ''/cache'' archive_world0)) =
     [Run_xcpretty, RemoveAll ''/cache''] \<and>
   fst (runArchiveCommandWithRetry locked_cache_env True ''/cache'' archive_world0) =
     (''error: cache is invalid'', Some (RemoveCachesFailed (OtherError ''permission denied''))) \<and>
   new_actions archive_world0
     (snd (runArchiveCommandWithRetry cache_invalid_env True [] archive_world0)) =
     [Run_xcpretty] \<and>
   fst (runArchiveCommandWithRetry cache_invalid_env True [] archive_world0) =
     (''error: cache is invalid'', Some (ExitError 65))"
proof -
  have c: "Contains ''error: cache is invalid'' ''cache is invalid''"
    by (simp add: HasPrefix_def)
  have h: "snd (xcprettyCmd_Run cache_invalid_env (runs archive_world0)) \<noteq> None"
    "snd (archiveRootCmd_Run cache_invalid_env (runs archive_world0)) \<noteq> None"
    "snd (xcprettyCmd_Run locked_cache_env (runs archive_world0)) \<noteq> None"
    "Contains (fst (xcprettyCmd_Run cache_invalid_env (runs archive_world0)))
       (SwiftPackagesStateInvalid cache_invalid_env)"
    "Contains (fst (archiveRootCmd_Run cache_invalid_env (runs archive_world0)))
       (SwiftPackagesStateInvalid cache_invalid_env)"
    "Contains (fst (xcprettyCmd_Run locked_cache_env (runs archive_world0)))
       (SwiftPackagesStateInvalid locked_cache_env)"
    "os_RemoveAll cache_invalid_env ''/cache'' = None"
    "os_RemoveAll locked_cache_env ''/cache'' = Some (OtherError ''permission denied'')"
    using c by (simp_all add: cache_invalid_env_def locked_cache_env_def archive_world0_def)
  have v: "xcprettyCmd_Run cache_invalid_env (runs archive_world0) =
        (''error: cache is invalid'', Some (ExitError 65))"
    "xcprettyCmd_Run locked_cache_env (runs archive_world0) =
        (''error: cache is invalid'', Some (ExitError 65))"
    "xcprettyCmd_Run cache_invalid_env (Suc (runs archive_world0)) = (''ARCHIVE SUCCEEDED'', None)"
    "archiveRootCmd_Run cache_invalid_env (Suc (runs archive_world0)) =
        (''ARCHIVE FAILED'', Some (ExitError 65))"
    by (simp_all add: cache_invalid_env_def locked_cache_env_def archive_world0_def)
  show ?thesis
    using
      runArchiveCommandWithRetry_cases [OF refl refl refl refl,
        of True cache_invalid_env archive_world0 "''/cache''"]
      runArchiveCommandWithRetry_cases [OF refl refl refl refl,
        of False cache_invalid_env archive_world0 "''/cache''"]
      runArchiveCommandWithRetry_cases [OF refl refl refl refl,
        of True locked_cache_env archive_world0 "''/cache''" "OtherError ''permission denied''"]
      runArchiveCommandWithRetry_cases [OF refl refl refl refl,
        of True cache_invalid_env archive_world0 "[]"]
      h v
    by (simp del: Contains.simps)
qed


end
